theory Spec2Isabelle
  imports Complex_Main
begin

section \<open>Data model of the hand-tracking hook\<close>

text \<open>
  The hook \<open>useHandTracking\<close> turns the detector's per-frame landmark lists into a
  single-hand \<open>GestureState\<close> and a \<open>TwoHandGestureState\<close>. JavaScript numbers are
  modelled as real numbers (rounding of IEEE doubles is not part of the model), a
  \<open>null\<close> as \<open>None\<close>, and a per-hand ref object \<open>{ [key: number]: v }\<close> as a map
  from the hand index to \<open>v\<close>, where an absent key reads as \<open>undefined\<close>.
  Reading a field of \<open>undefined\<close> throws a \<open>TypeError\<close>; the functions that can
  throw return a sum whose left summand is the error.
\<close>

datatype error = TypeError

record HandLandmark =
  lm_x :: real
  lm_y :: real
  lm_z :: real

record Point3 =
  x3 :: real
  y3 :: real
  z3 :: real

record Point2 =
  x2 :: real
  y2 :: real

record GestureState =
  isGrabbing :: bool
  handPosition :: "Point3 option"
  pinchDistance :: real
  confidence :: real

record TwoHandGestureState =
  bothPinching :: bool
  pullDistance :: real
  centerPosition :: "Point2 option"
  leftHand :: "GestureState option"
  rightHand :: "GestureState option"
  isPulling :: bool

text \<open>
  The refs and the two pieces of React state of the hook. \<open>gesture\<close> and
  \<open>twoHandGesture\<close> hold the value last passed to \<open>setGesture\<close> and
  \<open>setTwoHandGesture\<close>, which is also the value handed to the optional observer
  callbacks where the source invokes them.
\<close>

record State =
  gesture :: GestureState
  twoHandGesture :: TwoHandGestureState
  wasGrabbingRef :: bool
  stateChangeCounterRef :: nat
  pendingStateRef :: "bool option"
  wasGrabbingRefsPerHand :: "nat \<rightharpoonup> bool"
  stateChangeCountersPerHand :: "nat \<rightharpoonup> nat"
  pendingStatesPerHand :: "nat \<rightharpoonup> bool option"
  smoothedPositionsPerHand :: "nat \<rightharpoonup> Point3 option"
  smoothedPinchesPerHand :: "nat \<rightharpoonup> real"
  prevPullDistanceRef :: real
  smoothedPositionRef :: "Point3 option"
  smoothedPinchRef :: real

text \<open>What the detector delivers for one frame.\<close>

record Results =
  multiHandLandmarks :: "HandLandmark list list option"
  multiHandedness :: "string list option"

subsection \<open>Constants\<close>

definition PINCH_THRESHOLD :: real where
  "PINCH_THRESHOLD = 0.055"

definition PINCH_RELEASE_THRESHOLD :: real where
  "PINCH_RELEASE_THRESHOLD = 0.16"

definition STATE_CHANGE_FRAMES :: nat where
  "STATE_CHANGE_FRAMES = 2"

definition POSITION_SMOOTHING :: real where
  "POSITION_SMOOTHING = 0.4"

definition PINCH_SMOOTHING :: real where
  "PINCH_SMOOTHING = 0.5"

definition MIN_PULL_DISTANCE :: real where
  "MIN_PULL_DISTANCE = 0.15"

text \<open>
  Modelled from the spec: the table \<open>HAND_LANDMARKS\<close> is declared in
  \<open>@/types/hand-tracking\<close>, which is not among the sources. The thumb tip is landmark 4
  and the index finger tip is landmark 8 of the 21 landmarks of a hand, as the
  connection table of \<open>drawLandmarks\<close> also shows (thumb \<open>0-1-2-3-4\<close>, index
  \<open>0-5-6-7-8\<close>).
\<close>

definition THUMB_TIP :: nat where
  "THUMB_TIP = 4"

definition INDEX_TIP :: nat where
  "INDEX_TIP = 8"

subsection \<open>Initial values\<close>

definition noHandGesture :: GestureState where
  "noHandGesture = \<lparr>isGrabbing = False, handPosition = None, pinchDistance = 1, confidence = 0\<rparr>"

definition noTwoHandGesture :: TwoHandGestureState where
  "noTwoHandGesture = \<lparr>bothPinching = False, pullDistance = 0, centerPosition = None,
     leftHand = None, rightHand = None, isPulling = False\<rparr>"

definition initialState :: State where
  "initialState = \<lparr>gesture = noHandGesture, twoHandGesture = noTwoHandGesture,
     wasGrabbingRef = False, stateChangeCounterRef = 0, pendingStateRef = None,
     wasGrabbingRefsPerHand = Map.empty, stateChangeCountersPerHand = Map.empty,
     pendingStatesPerHand = Map.empty, smoothedPositionsPerHand = Map.empty,
     smoothedPinchesPerHand = Map.empty, prevPullDistanceRef = 0,
     smoothedPositionRef = None, smoothedPinchRef = 1\<rparr>"

section \<open>Geometry\<close>

text \<open>\<open>landmarks[i]\<close>: \<open>undefined\<close> beyond the end of the array.\<close>

definition landmarkAt :: "HandLandmark list \<Rightarrow> nat \<Rightarrow> HandLandmark option" where
  "landmarkAt landmarks i = (if i < length landmarks then Some (landmarks ! i) else None)"

definition calculatePinchDistance :: "HandLandmark list \<Rightarrow> error + real" where
  "calculatePinchDistance landmarks =
    (case landmarkAt landmarks THUMB_TIP of
       None \<Rightarrow> Inl TypeError
     | Some thumbTip \<Rightarrow>
        (case landmarkAt landmarks INDEX_TIP of
           None \<Rightarrow> Inl TypeError
         | Some indexTip \<Rightarrow>
            (let dx = lm_x thumbTip - lm_x indexTip;
                 dy = lm_y thumbTip - lm_y indexTip;
                 dz = lm_z thumbTip - lm_z indexTip
             in Inr (sqrt (dx * dx + dy * dy + dz * dz)))))"

definition calculateHandCenter :: "HandLandmark list \<Rightarrow> error + Point3" where
  "calculateHandCenter landmarks =
    (case landmarkAt landmarks THUMB_TIP of
       None \<Rightarrow> Inl TypeError
     | Some thumbTip \<Rightarrow>
        (case landmarkAt landmarks INDEX_TIP of
           None \<Rightarrow> Inl TypeError
         | Some indexTip \<Rightarrow>
            Inr \<lparr>x3 = (lm_x thumbTip + lm_x indexTip) / 2,
                 y3 = (lm_y thumbTip + lm_y indexTip) / 2,
                 z3 = (lm_z thumbTip + lm_z indexTip) / 2\<rparr>))"

section \<open>The filter blocks shared by both per-hand paths\<close>

text \<open>
  \<open>processLandmarks\<close> (single hand, on its own refs) and \<open>processHandLandmarks\<close>
  (per hand index, on the per-hand refs) contain the same three blocks of code, once on
  each set of refs. Each block is one definition here, over the values it reads.
\<close>

text \<open>"Apply exponential smoothing to position".\<close>

definition smoothPosition :: "Point3 option \<Rightarrow> real \<Rightarrow> real \<Rightarrow> real \<Rightarrow> Point3" where
  "smoothPosition current rawX rawY rawZ =
    (case current of
       None \<Rightarrow> \<lparr>x3 = rawX, y3 = rawY, z3 = rawZ\<rparr>
     | Some prev \<Rightarrow>
         \<lparr>x3 = x3 prev + POSITION_SMOOTHING * (rawX - x3 prev),
          y3 = y3 prev + POSITION_SMOOTHING * (rawY - y3 prev),
          z3 = z3 prev + POSITION_SMOOTHING * (rawZ - z3 prev)\<rparr>)"

text \<open>"Apply smoothing to pinch distance".\<close>

definition smoothPinch :: "real \<Rightarrow> real \<Rightarrow> real" where
  "smoothPinch current rawPinchDistance =
     current + PINCH_SMOOTHING * (rawPinchDistance - current)"

text \<open>"Determine what the new state should be based on thresholds".\<close>

definition targetStateOf :: "bool \<Rightarrow> real \<Rightarrow> bool" where
  "targetStateOf wasGrabbing pinchDist =
    (if \<not> wasGrabbing \<and> pinchDist < PINCH_THRESHOLD then True
     else if wasGrabbing \<and> pinchDist > PINCH_RELEASE_THRESHOLD then False
     else wasGrabbing)"

text \<open>
  "Debouncing: require multiple consecutive frames to confirm state change". The
  triple is (wasGrabbing, pendingState, stateChangeCounter), before and after.
\<close>

definition debounce :: "bool \<Rightarrow> bool option \<Rightarrow> nat \<Rightarrow> bool \<Rightarrow> bool \<times> bool option \<times> nat" where
  "debounce wasGrabbing pendingState stateChangeCounter targetState =
    (if targetState \<noteq> wasGrabbing then
       (if pendingState = Some targetState then
          (if stateChangeCounter + 1 \<ge> STATE_CHANGE_FRAMES
           then (targetState, None, 0)
           else (wasGrabbing, pendingState, stateChangeCounter + 1))
        else (wasGrabbing, Some targetState, 1))
     else (wasGrabbing, None, 0))"

section \<open>The single-hand path\<close>

definition processLandmarks :: "HandLandmark list \<Rightarrow> State \<Rightarrow> error + State" where
  "processLandmarks landmarks s =
    (case calculatePinchDistance landmarks of
       Inl e \<Rightarrow> Inl e
     | Inr rawPinchDistance \<Rightarrow>
    (case calculateHandCenter landmarks of
       Inl e \<Rightarrow> Inl e
     | Inr rawHandPosition \<Rightarrow>
        (let rawX = - (x3 rawHandPosition * 2 - 1);
             rawY = - (y3 rawHandPosition * 2 - 1);
             rawZ = z3 rawHandPosition;
             smoothedPosition = smoothPosition (smoothedPositionRef s) rawX rawY rawZ;
             pinchDist = smoothPinch (smoothedPinchRef s) rawPinchDistance;
             targetState = targetStateOf (wasGrabbingRef s) pinchDist;
             (wasGrabbing, pendingState, stateChangeCounter) =
                debounce (wasGrabbingRef s) (pendingStateRef s) (stateChangeCounterRef s) targetState;
             newGesture = \<lparr>isGrabbing = wasGrabbing, handPosition = Some smoothedPosition,
                            pinchDistance = pinchDist, confidence = 1\<rparr>
         in Inr (s\<lparr>smoothedPositionRef := Some smoothedPosition,
                   smoothedPinchRef := pinchDist,
                   wasGrabbingRef := wasGrabbing,
                   pendingStateRef := pendingState,
                   stateChangeCounterRef := stateChangeCounter,
                   gesture := newGesture\<rparr>))))"

section \<open>The per-hand path\<close>

text \<open>"Initialize refs for this hand if needed": an absent key gets its initial value.\<close>

definition initHandRefs :: "nat \<Rightarrow> State \<Rightarrow> State" where
  "initHandRefs handIndex s =
    (let s1 = (if smoothedPositionsPerHand s handIndex = None
               then s\<lparr>smoothedPositionsPerHand := (smoothedPositionsPerHand s)(handIndex \<mapsto> None)\<rparr>
               else s);
         s2 = (if smoothedPinchesPerHand s1 handIndex = None
               then s1\<lparr>smoothedPinchesPerHand := (smoothedPinchesPerHand s1)(handIndex \<mapsto> 1)\<rparr>
               else s1);
         s3 = (if wasGrabbingRefsPerHand s2 handIndex = None
               then s2\<lparr>wasGrabbingRefsPerHand := (wasGrabbingRefsPerHand s2)(handIndex \<mapsto> False)\<rparr>
               else s2);
         s4 = (if stateChangeCountersPerHand s3 handIndex = None
               then s3\<lparr>stateChangeCountersPerHand := (stateChangeCountersPerHand s3)(handIndex \<mapsto> 0)\<rparr>
               else s3);
         s5 = (if pendingStatesPerHand s4 handIndex = None
               then s4\<lparr>pendingStatesPerHand := (pendingStatesPerHand s4)(handIndex \<mapsto> None)\<rparr>
               else s4)
     in s5)"

text \<open>
  After the initialisation each of the five refs has a value for the hand index, so the
  branches of the source that leave a ref as it is are the same as writing its value
  back; the model writes all five.
\<close>

definition processHandLandmarks ::
  "HandLandmark list \<Rightarrow> nat \<Rightarrow> State \<Rightarrow> error + (GestureState \<times> State)" where
  "processHandLandmarks landmarks handIndex s =
    (case calculatePinchDistance landmarks of
       Inl e \<Rightarrow> Inl e
     | Inr rawPinchDistance \<Rightarrow>
    (case calculateHandCenter landmarks of
       Inl e \<Rightarrow> Inl e
     | Inr rawHandPosition \<Rightarrow>
        (let rawX = - (x3 rawHandPosition * 2 - 1);
             rawY = - (y3 rawHandPosition * 2 - 1);
             rawZ = z3 rawHandPosition;
             s0 = initHandRefs handIndex s;
             smoothedPosition =
               smoothPosition (the (smoothedPositionsPerHand s0 handIndex)) rawX rawY rawZ;
             pinchDist =
               smoothPinch (the (smoothedPinchesPerHand s0 handIndex)) rawPinchDistance;
             targetState = targetStateOf (the (wasGrabbingRefsPerHand s0 handIndex)) pinchDist;
             (wasGrabbing, pendingState, stateChangeCounter) =
                debounce (the (wasGrabbingRefsPerHand s0 handIndex))
                         (the (pendingStatesPerHand s0 handIndex))
                         (the (stateChangeCountersPerHand s0 handIndex)) targetState
         in Inr (\<lparr>isGrabbing = wasGrabbing, handPosition = Some smoothedPosition,
                   pinchDistance = pinchDist, confidence = 1\<rparr>,
                 s0\<lparr>smoothedPositionsPerHand :=
                       (smoothedPositionsPerHand s0)(handIndex \<mapsto> Some smoothedPosition),
                    smoothedPinchesPerHand :=
                       (smoothedPinchesPerHand s0)(handIndex \<mapsto> pinchDist),
                    wasGrabbingRefsPerHand :=
                       (wasGrabbingRefsPerHand s0)(handIndex \<mapsto> wasGrabbing),
                    pendingStatesPerHand :=
                       (pendingStatesPerHand s0)(handIndex \<mapsto> pendingState),
                    stateChangeCountersPerHand :=
                       (stateChangeCountersPerHand s0)(handIndex \<mapsto> stateChangeCounter)\<rparr>))))"

section \<open>The two-hand aggregator\<close>

definition processTwoHandGesture ::
  "GestureState option \<Rightarrow> GestureState option \<Rightarrow> string option \<Rightarrow> string option \<Rightarrow>
     State \<Rightarrow> TwoHandGestureState \<times> State" where
  "processTwoHandGesture hand0 hand1 handedness0 handedness1 s =
    (let (left0, right0) =
           (case hand0 of
              None \<Rightarrow> (None, None)
            | Some h0 \<Rightarrow>
               (if handedness0 = Some ''Left'' then (Some h0, None)
                else if handedness0 = Some ''Right'' then (None, Some h0)
                else if (case handPosition h0 of
                           None \<Rightarrow> False
                         | Some p0 \<Rightarrow>
                            (case hand1 of
                               None \<Rightarrow> True
                             | Some h1 \<Rightarrow>
                                (case handPosition h1 of
                                   None \<Rightarrow> True
                                 | Some p1 \<Rightarrow> x3 p0 < x3 p1)))
                     then (Some h0, None)
                     else (None, Some h0)));
         (left1, right1) =
           (case hand1 of
              None \<Rightarrow> (left0, right0)
            | Some h1 \<Rightarrow>
               (if handedness1 = Some ''Left'' then (Some h1, right0)
                else if handedness1 = Some ''Right'' then (left0, Some h1)
                else if left0 = None then (Some h1, right0)
                else (left0, Some h1)));
         bothPinching' =
           (case (left1, right1) of
              (Some l, Some r) \<Rightarrow> isGrabbing l \<and> isGrabbing r
            | _ \<Rightarrow> False);
         (pullDistance', centerPosition') =
           (case (left1, right1) of
              (Some l, Some r) \<Rightarrow>
                (case (handPosition l, handPosition r) of
                   (Some lp, Some rp) \<Rightarrow>
                     (let dx = x3 rp - x3 lp;
                          dy = y3 rp - y3 lp
                      in (sqrt (dx * dx + dy * dy),
                          Some \<lparr>x2 = (x3 lp + x3 rp) / 2, y2 = (y3 lp + y3 rp) / 2\<rparr>))
                 | _ \<Rightarrow> (0, None))
            | _ \<Rightarrow> (0, None));
         isPulling' = (bothPinching' \<and> pullDistance' > MIN_PULL_DISTANCE);
         newTwoHandGesture =
           \<lparr>bothPinching = bothPinching', pullDistance = pullDistance',
            centerPosition = centerPosition', leftHand = left1, rightHand = right1,
            isPulling = isPulling'\<rparr>
     in (newTwoHandGesture,
         s\<lparr>prevPullDistanceRef := pullDistance', twoHandGesture := newTwoHandGesture\<rparr>))"

section \<open>One detector frame\<close>

text \<open>
  \<open>drawLandmarks\<close> only paints, but it reads \<open>landmarks[start].x\<close> and
  \<open>landmarks[end].x\<close> for every pair of its connection table, and so throws on a
  hand that lacks one of these landmarks.
\<close>

definition connections :: "(nat \<times> nat) list" where
  "connections =
    [(0, 1), (1, 2), (2, 3), (3, 4),
     (0, 5), (5, 6), (6, 7), (7, 8),
     (0, 9), (9, 10), (10, 11), (11, 12),
     (0, 13), (13, 14), (14, 15), (15, 16),
     (0, 17), (17, 18), (18, 19), (19, 20),
     (5, 9), (9, 13), (13, 17)]"

definition drawLandmarks :: "HandLandmark list \<Rightarrow> error + unit" where
  "drawLandmarks landmarks =
    (if list_all (\<lambda>(start, fin). landmarkAt landmarks start \<noteq> None \<and>
                                   landmarkAt landmarks fin \<noteq> None) connections
     then Inr () else Inl TypeError)"

text \<open>\<open>results.multiHandedness?.[i]?.label\<close>.\<close>

definition handednessAt :: "string list option \<Rightarrow> nat \<Rightarrow> string option" where
  "handednessAt mh i =
    (case mh of
       None \<Rightarrow> None
     | Some labels \<Rightarrow> (if i < length labels then Some (labels ! i) else None))"

text \<open>
  The \<open>for\<close> loop of \<open>onResults\<close> over the hands from index \<open>i\<close> on, with the two
  arrays it pushes to. When a call throws, the loop is left with the refs as they are at
  that point.
\<close>

fun handLoop ::
  "HandLandmark list list \<Rightarrow> string list option \<Rightarrow> nat \<Rightarrow> GestureState list \<Rightarrow>
     string option list \<Rightarrow> State \<Rightarrow> (error + GestureState list \<times> string option list) \<times> State" where
  "handLoop [] mh i handGestures handednessLabels s = (Inr (handGestures, handednessLabels), s)"
| "handLoop (handLandmarks # rest) mh i handGestures handednessLabels s =
    (case processHandLandmarks handLandmarks i s of
       Inl e \<Rightarrow> (Inl e, s)
     | Inr (handGesture, s1) \<Rightarrow>
        (case (if i > 0 then drawLandmarks handLandmarks else Inr ()) of
           Inl e \<Rightarrow> (Inl e, s1)
         | Inr _ \<Rightarrow>
            handLoop rest mh (i + 1) (handGestures @ [handGesture])
              (handednessLabels @ [handednessAt mh i]) s1))"

text \<open>\<open>handGestures[i] || null\<close> and \<open>handednessLabels[i]\<close>.\<close>

definition elemAt :: "'a list \<Rightarrow> nat \<Rightarrow> 'a option" where
  "elemAt xs i = (if i < length xs then Some (xs ! i) else None)"

text \<open>The \<open>else\<close> branch of \<open>onResults\<close>: no hand in the frame.\<close>

definition resetNoHands :: "State \<Rightarrow> State" where
  "resetNoHands s =
     s\<lparr>gesture := noHandGesture,
       wasGrabbingRef := False,
       twoHandGesture := noTwoHandGesture,
       wasGrabbingRefsPerHand := Map.empty,
       stateChangeCountersPerHand := Map.empty,
       pendingStatesPerHand := Map.empty,
       smoothedPositionsPerHand := Map.empty,
       smoothedPinchesPerHand := Map.empty\<rparr>"

text \<open>
  \<open>onResults\<close>. The flag \<open>ctxReady\<close> says that the canvas and its 2D context exist
  (otherwise the callback returns at once). The result is the error thrown, if any, and
  the refs and React state after the call.
\<close>

definition onResults :: "bool \<Rightarrow> Results \<Rightarrow> State \<Rightarrow> error option \<times> State" where
  "onResults ctxReady results s =
    (if \<not> ctxReady then (None, s)
     else
      (case multiHandLandmarks results of
         Some (landmarks # rest) \<Rightarrow>
           (case processLandmarks landmarks s of
              Inl e \<Rightarrow> (Some e, s)
            | Inr s1 \<Rightarrow>
               (case drawLandmarks landmarks of
                  Inl e \<Rightarrow> (Some e, s1)
                | Inr _ \<Rightarrow>
                   (case handLoop (landmarks # rest) (multiHandedness results) 0 [] [] s1 of
                      (Inl e, s2) \<Rightarrow> (Some e, s2)
                    | (Inr (handGestures, handednessLabels), s2) \<Rightarrow>
                       (None,
                        snd (processTwoHandGesture (elemAt handGestures 0) (elemAt handGestures 1)
                               (case elemAt handednessLabels 0 of None \<Rightarrow> None | Some l \<Rightarrow> l)
                               (case elemAt handednessLabels 1 of None \<Rightarrow> None | Some l \<Rightarrow> l)
                               s2)))))
       | _ \<Rightarrow> (None, resetNoHands s)))"

text \<open>
  A sequence of frames: each call of \<open>onResults\<close> works on the refs the previous call
  left behind, also when that call threw.
\<close>

definition runFrames :: "bool \<Rightarrow> Results list \<Rightarrow> State \<Rightarrow> State" where
  "runFrames ctxReady frames s = foldl (\<lambda>st r. snd (onResults ctxReady r st)) s frames"

text \<open>
  The per-hand filter of one hand index on a sequence of landmark lists, with the
  \<open>GestureState\<close> returned for each; it stops at the first call that throws.
\<close>

fun runHand ::
  "nat \<Rightarrow> HandLandmark list list \<Rightarrow> State \<Rightarrow> error + (GestureState list \<times> State)" where
  "runHand handIndex [] s = Inr ([], s)"
| "runHand handIndex (landmarks # rest) s =
    (case processHandLandmarks landmarks handIndex s of
       Inl e \<Rightarrow> Inl e
     | Inr (g, s1) \<Rightarrow>
        (case runHand handIndex rest s1 of
           Inl e \<Rightarrow> Inl e
         | Inr (gs, s2) \<Rightarrow> Inr (g # gs, s2)))"

text \<open>
  The values the per-hand refs hold for a hand index once "Initialize refs for this hand
  if needed" has run: an absent key reads as its initial value.
\<close>

definition slotPosition :: "State \<Rightarrow> nat \<Rightarrow> Point3 option" where
  "slotPosition s i = (case smoothedPositionsPerHand s i of None \<Rightarrow> None | Some p \<Rightarrow> p)"

definition slotPinch :: "State \<Rightarrow> nat \<Rightarrow> real" where
  "slotPinch s i = (case smoothedPinchesPerHand s i of None \<Rightarrow> 1 | Some d \<Rightarrow> d)"

definition slotGrabbing :: "State \<Rightarrow> nat \<Rightarrow> bool" where
  "slotGrabbing s i = (case wasGrabbingRefsPerHand s i of None \<Rightarrow> False | Some b \<Rightarrow> b)"

definition slotCounter :: "State \<Rightarrow> nat \<Rightarrow> nat" where
  "slotCounter s i = (case stateChangeCountersPerHand s i of None \<Rightarrow> 0 | Some n \<Rightarrow> n)"

definition slotPending :: "State \<Rightarrow> nat \<Rightarrow> bool option" where
  "slotPending s i = (case pendingStatesPerHand s i of None \<Rightarrow> None | Some p \<Rightarrow> p)"

text \<open>A hand for concrete frames: 21 landmarks, with the given thumb tip and index tip.\<close>

definition lm :: "real \<Rightarrow> real \<Rightarrow> real \<Rightarrow> HandLandmark" where
  "lm a b c = \<lparr>lm_x = a, lm_y = b, lm_z = c\<rparr>"

definition handWith :: "HandLandmark \<Rightarrow> HandLandmark \<Rightarrow> HandLandmark list" where
  "handWith thumbTip indexTip =
     replicate 4 (lm 0 0 0) @ [thumbTip] @ replicate 3 (lm 0 0 0) @ [indexTip] @
     replicate 12 (lm 0 0 0)"

text \<open>
  The \<open>GestureState\<close> that \<open>processHandLandmarks\<close> returns and the refs it leaves, for
  raw pinch distance \<open>d\<close> and raw hand centre \<open>c\<close>, written over the slot's values.
\<close>

definition slotDebounce :: "real \<Rightarrow> nat \<Rightarrow> State \<Rightarrow> bool \<times> bool option \<times> nat" where
  "slotDebounce d i s =
     debounce (slotGrabbing s i) (slotPending s i) (slotCounter s i)
       (targetStateOf (slotGrabbing s i) (smoothPinch (slotPinch s i) d))"

definition slotGesture :: "real \<Rightarrow> Point3 \<Rightarrow> nat \<Rightarrow> State \<Rightarrow> GestureState" where
  "slotGesture d c i s =
     \<lparr>isGrabbing = fst (slotDebounce d i s),
      handPosition = Some (smoothPosition (slotPosition s i)
                             (- (x3 c * 2 - 1)) (- (y3 c * 2 - 1)) (z3 c)),
      pinchDistance = smoothPinch (slotPinch s i) d,
      confidence = 1\<rparr>"

definition slotAfter :: "real \<Rightarrow> Point3 \<Rightarrow> nat \<Rightarrow> State \<Rightarrow> State" where
  "slotAfter d c i s =
     s\<lparr>smoothedPositionsPerHand :=
         (smoothedPositionsPerHand s)(i \<mapsto> handPosition (slotGesture d c i s)),
       smoothedPinchesPerHand :=
         (smoothedPinchesPerHand s)(i \<mapsto> pinchDistance (slotGesture d c i s)),
       wasGrabbingRefsPerHand :=
         (wasGrabbingRefsPerHand s)(i \<mapsto> isGrabbing (slotGesture d c i s)),
       pendingStatesPerHand :=
         (pendingStatesPerHand s)(i \<mapsto> fst (snd (slotDebounce d i s))),
       stateChangeCountersPerHand :=
         (stateChangeCountersPerHand s)(i \<mapsto> snd (snd (slotDebounce d i s)))\<rparr>"

text \<open>The same for \<open>processLandmarks\<close>, over the single-hand refs.\<close>

definition singleDebounce :: "real \<Rightarrow> State \<Rightarrow> bool \<times> bool option \<times> nat" where
  "singleDebounce d s =
     debounce (wasGrabbingRef s) (pendingStateRef s) (stateChangeCounterRef s)
       (targetStateOf (wasGrabbingRef s) (smoothPinch (smoothedPinchRef s) d))"

definition singleGesture :: "real \<Rightarrow> Point3 \<Rightarrow> State \<Rightarrow> GestureState" where
  "singleGesture d c s =
     \<lparr>isGrabbing = fst (singleDebounce d s),
      handPosition = Some (smoothPosition (smoothedPositionRef s)
                             (- (x3 c * 2 - 1)) (- (y3 c * 2 - 1)) (z3 c)),
      pinchDistance = smoothPinch (smoothedPinchRef s) d,
      confidence = 1\<rparr>"

definition singleAfter :: "real \<Rightarrow> Point3 \<Rightarrow> State \<Rightarrow> State" where
  "singleAfter d c s =
     s\<lparr>smoothedPositionRef := handPosition (singleGesture d c s),
       smoothedPinchRef := pinchDistance (singleGesture d c s),
       wasGrabbingRef := isGrabbing (singleGesture d c s),
       pendingStateRef := fst (snd (singleDebounce d s)),
       stateChangeCounterRef := snd (snd (singleDebounce d s)),
       gesture := singleGesture d c s\<rparr>"

subsection \<open>Predicates and inputs of the properties\<close>

text \<open>A position in the centred convention: \<open>x\<close> and \<open>y\<close> in \<open>[-1, 1]\<close>.\<close>

definition inBox :: "Point3 \<Rightarrow> bool" where
  "inBox p = (- 1 \<le> x3 p \<and> x3 p \<le> 1 \<and> - 1 \<le> y3 p \<and> y3 p \<le> 1)"

definition positionInBox :: "Point3 option \<Rightarrow> bool" where
  "positionInBox po = (case po of None \<Rightarrow> True | Some p \<Rightarrow> inBox p)"

definition handInBox :: "GestureState option \<Rightarrow> bool" where
  "handInBox go = (case go of None \<Rightarrow> True | Some g \<Rightarrow> positionInBox (handPosition g))"

text \<open>The hand positions that a state shows to the consumers of the hook.\<close>

definition emittedInBox :: "State \<Rightarrow> bool" where
  "emittedInBox s =
     (positionInBox (handPosition (gesture s)) \<and>
      handInBox (leftHand (twoHandGesture s)) \<and>
      handInBox (rightHand (twoHandGesture s)))"

text \<open>All the positions a state holds, emitted or kept in the refs.\<close>

definition stateInBox :: "State \<Rightarrow> bool" where
  "stateInBox s =
     (emittedInBox s \<and> positionInBox (smoothedPositionRef s) \<and>
      (\<forall>i. positionInBox (slotPosition s i)))"

text \<open>A frame of the detector whose landmarks all have \<open>x\<close> and \<open>y\<close> in \<open>[0, 1]\<close>.\<close>

definition landmarkInRange :: "HandLandmark \<Rightarrow> bool" where
  "landmarkInRange l = (0 \<le> lm_x l \<and> lm_x l \<le> 1 \<and> 0 \<le> lm_y l \<and> lm_y l \<le> 1)"

definition frameInRange :: "Results \<Rightarrow> bool" where
  "frameInRange r =
     (case multiHandLandmarks r of
        None \<Rightarrow> True
      | Some hands \<Rightarrow> list_all (list_all landmarkInRange) hands)"

text \<open>The Euclidean distance of two positions in the \<open>(x, y)\<close> plane.\<close>

definition distance2D :: "Point3 \<Rightarrow> Point3 \<Rightarrow> real" where
  "distance2D p q = sqrt ((x3 q - x3 p)\<^sup>2 + (y3 q - y3 p)\<^sup>2)"

text \<open>
  The pull gate, as a property of a \<open>TwoHandGestureState\<close>: the distance is that of the
  two positions, or 0 when one is missing, and \<open>isPulling\<close> holds exactly when both
  hands are there and grabbing and the distance exceeds 0.15.
\<close>

definition pullGate :: "TwoHandGestureState \<Rightarrow> bool" where
  "pullGate t =
     (pullDistance t =
        (case (leftHand t, rightHand t) of
           (Some l, Some r) \<Rightarrow>
             (case (handPosition l, handPosition r) of
                (Some p, Some q) \<Rightarrow> distance2D p q
              | _ \<Rightarrow> 0)
         | _ \<Rightarrow> 0) \<and>
      isPulling t =
        ((case (leftHand t, rightHand t) of
            (Some l, Some r) \<Rightarrow> isGrabbing l \<and> isGrabbing r
          | _ \<Rightarrow> False) \<and> pullDistance t > 0.15))"

text \<open>
  Concrete frames. \<open>pinchHand d\<close> is a hand with the thumb tip at \<open>(1/2, 1/2, 0)\<close> and
  the index tip \<open>d\<close> to its right, so its raw pinch distance is \<open>\<bar>d\<bar>\<close>;
  \<open>oneHandFrame\<close> and \<open>noHandsFrame\<close> are the detector results with one unlabelled
  hand and with no hand.
\<close>

definition pinchHand :: "real \<Rightarrow> HandLandmark list" where
  "pinchHand d = handWith (lm (1 / 2) (1 / 2) 0) (lm (1 / 2 + d) (1 / 2) 0)"

definition oneHandFrame :: "HandLandmark list \<Rightarrow> Results" where
  "oneHandFrame h = \<lparr>multiHandLandmarks = Some [h], multiHandedness = None\<rparr>"

definition noHandsFrame :: Results where
  "noHandsFrame = \<lparr>multiHandLandmarks = Some [], multiHandedness = None\<rparr>"

definition closedFrames :: "nat \<Rightarrow> HandLandmark list list" where
  "closedFrames n = replicate n (pinchHand 0)"

text \<open>The raw pinch distances 0.2, 0.2, 0.05, 0.05, 0.2 of the five-frame scenario.\<close>

definition scenarioFrames :: "HandLandmark list list" where
  "scenarioFrames = [pinchHand 0.2, pinchHand 0.2, pinchHand 0.05, pinchHand 0.05, pinchHand 0.2]"

text \<open>
  The refs of a hand that is held: six frames with closed fingers commit the grab, and
  a seventh frame brings the smoothed pinch distance to 0.1.
\<close>

definition heldState :: State where
  "heldState =
     (case runHand 0 (closedFrames 6 @ [pinchHand (59 / 320)]) initialState of
        Inl e \<Rightarrow> initialState
      | Inr (gs, s) \<Rightarrow> s)"

text \<open>The refs after \<open>n\<close> frames of one hand with closed fingers, from the initial refs.\<close>

definition closedState :: "nat \<Rightarrow> State" where
  "closedState n =
     (case runHand 0 (closedFrames n) initialState of
        Inl e \<Rightarrow> initialState
      | Inr (gs, s) \<Rightarrow> s)"

text \<open>The \<open>GestureState\<close> of a grabbing hand at \<open>(x, 0, 0)\<close>.\<close>

definition grabbingAt :: "real \<Rightarrow> GestureState" where
  "grabbingAt x =
     \<lparr>isGrabbing = True, handPosition = Some \<lparr>x3 = x, y3 = 0, z3 = 0\<rparr>,
      pinchDistance = 0.03, confidence = 1\<rparr>"

text \<open>
  Frame sequences of the detector: \<open>n\<close> frames of one hand with closed fingers; five
  of them and then a frame without hands; and these six and then the hand again.
\<close>

definition closedHandFrames :: "nat \<Rightarrow> Results list" where
  "closedHandFrames n = replicate n (oneHandFrame (pinchHand 0))"

definition lostHandFrames :: "Results list" where
  "lostHandFrames = closedHandFrames 5 @ [noHandsFrame]"

definition regainedHandFrames :: "Results list" where
  "regainedHandFrames = lostHandFrames @ [oneHandFrame (pinchHand 0)]"

text \<open>
  A hand of nine landmarks, which has its thumb tip and index tip but not the 21
  landmarks of a hand, and the detector results with two unlabelled hands.
\<close>

definition shortHand :: "HandLandmark list" where
  "shortHand = take 9 (pinchHand 0)"

definition twoHandFrame :: "HandLandmark list \<Rightarrow> HandLandmark list \<Rightarrow> Results" where
  "twoHandFrame h0 h1 = \<lparr>multiHandLandmarks = Some [h0, h1], multiHandedness = None\<rparr>"

text \<open>The five per-hand refs at a hand index, each \<open>undefined\<close> (\<open>None\<close>) or a value.\<close>

definition slotRefs ::
  "State \<Rightarrow> nat \<Rightarrow>
     Point3 option option \<times> real option \<times> bool option \<times> nat option \<times> bool option option" where
  "slotRefs s i =
     (smoothedPositionsPerHand s i, smoothedPinchesPerHand s i, wasGrabbingRefsPerHand s i,
      stateChangeCountersPerHand s i, pendingStatesPerHand s i)"

subsection \<open>The debounce values of a hand as a tuple\<close>

text \<open>
  The committed state, the pending candidate, the counter and the smoothed pinch
  distance of one hand, and what one frame with raw pinch distance \<open>d\<close> makes of them.
  Both filters are this step on their own refs (lemmas \<open>slotView_after\<close> and
  \<open>singleView_after\<close>); concrete frame sequences are evaluated on these tuples.
\<close>

fun viewStep ::
  "real \<Rightarrow> bool \<times> bool option \<times> nat \<times> real \<Rightarrow> bool \<times> bool option \<times> nat \<times> real" where
  "viewStep d (g, p, n, q) =
     (case debounce g p n (targetStateOf g (smoothPinch q d)) of
        (g', p', n') \<Rightarrow> (g', p', n', smoothPinch q d))"

definition slotView :: "State \<Rightarrow> nat \<Rightarrow> bool \<times> bool option \<times> nat \<times> real" where
  "slotView s i = (slotGrabbing s i, slotPending s i, slotCounter s i, slotPinch s i)"

definition singleView :: "State \<Rightarrow> bool \<times> bool option \<times> nat \<times> real" where
  "singleView s =
     (wasGrabbingRef s, pendingStateRef s, stateChangeCounterRef s, smoothedPinchRef s)"

text \<open>
  The single-hand refs hold what the per-hand refs of slot 0 hold; and a frame whose
  first hand has its 21 landmarks.
\<close>

definition synced :: "State \<Rightarrow> bool" where
  "synced s = (singleView s = slotView s 0 \<and> smoothedPositionRef s = slotPosition s 0)"

definition firstHandComplete :: "Results \<Rightarrow> bool" where
  "firstHandComplete r =
     (case multiHandLandmarks r of
        Some (h # hs) \<Rightarrow> length h = 21
      | _ \<Rightarrow> False)"

section \<open>The per-hand filter over the slot's values\<close>

lemma the_init_position:
  "the (smoothedPositionsPerHand (initHandRefs i s) i) = slotPosition s i"
  by (simp add: initHandRefs_def slotPosition_def Let_def split: option.splits)

lemma the_init_pinch:
  "the (smoothedPinchesPerHand (initHandRefs i s) i) = slotPinch s i"
  by (simp add: initHandRefs_def slotPinch_def Let_def split: option.splits)

lemma the_init_grabbing:
  "the (wasGrabbingRefsPerHand (initHandRefs i s) i) = slotGrabbing s i"
  by (simp add: initHandRefs_def slotGrabbing_def Let_def split: option.splits)

lemma the_init_counter:
  "the (stateChangeCountersPerHand (initHandRefs i s) i) = slotCounter s i"
  by (simp add: initHandRefs_def slotCounter_def Let_def split: option.splits)

lemma the_init_pending:
  "the (pendingStatesPerHand (initHandRefs i s) i) = slotPending s i"
  by (simp add: initHandRefs_def slotPending_def Let_def split: option.splits)

lemma init_overwritten:
  "(initHandRefs i s)\<lparr>smoothedPositionsPerHand := (smoothedPositionsPerHand (initHandRefs i s))(i \<mapsto> a),
      smoothedPinchesPerHand := (smoothedPinchesPerHand (initHandRefs i s))(i \<mapsto> b),
      wasGrabbingRefsPerHand := (wasGrabbingRefsPerHand (initHandRefs i s))(i \<mapsto> c),
      pendingStatesPerHand := (pendingStatesPerHand (initHandRefs i s))(i \<mapsto> d),
      stateChangeCountersPerHand := (stateChangeCountersPerHand (initHandRefs i s))(i \<mapsto> e)\<rparr>
   = s\<lparr>smoothedPositionsPerHand := (smoothedPositionsPerHand s)(i \<mapsto> a),
      smoothedPinchesPerHand := (smoothedPinchesPerHand s)(i \<mapsto> b),
      wasGrabbingRefsPerHand := (wasGrabbingRefsPerHand s)(i \<mapsto> c),
      pendingStatesPerHand := (pendingStatesPerHand s)(i \<mapsto> d),
      stateChangeCountersPerHand := (stateChangeCountersPerHand s)(i \<mapsto> e)\<rparr>"
  by (simp add: initHandRefs_def Let_def)

lemma processHandLandmarks_Inr:
  assumes "calculatePinchDistance lms = Inr d" and "calculateHandCenter lms = Inr c"
  shows "processHandLandmarks lms i s = Inr (slotGesture d c i s, slotAfter d c i s)"
  using assms
  by (simp add: processHandLandmarks_def slotGesture_def slotAfter_def slotDebounce_def Let_def
      the_init_position the_init_pinch the_init_grabbing the_init_counter the_init_pending
      init_overwritten split: prod.splits)

lemma geometry_defined:
  assumes "INDEX_TIP < length lms"
  shows "\<exists>d c. calculatePinchDistance lms = Inr d \<and> calculateHandCenter lms = Inr c"
  using assms
  by (simp add: calculatePinchDistance_def calculateHandCenter_def landmarkAt_def
      THUMB_TIP_def INDEX_TIP_def Let_def)

lemma geometry_undefined:
  assumes "\<not> INDEX_TIP < length lms"
  shows "calculatePinchDistance lms = Inl TypeError" and "calculateHandCenter lms = Inl TypeError"
  using assms
  by (simp_all add: calculatePinchDistance_def calculateHandCenter_def landmarkAt_def
      THUMB_TIP_def INDEX_TIP_def split: option.splits)

lemma processHandLandmarks_cases:
  assumes "processHandLandmarks lms i s = Inr (g, s')"
  obtains d c where "calculatePinchDistance lms = Inr d" and "calculateHandCenter lms = Inr c"
    and "g = slotGesture d c i s" and "s' = slotAfter d c i s"
proof (cases "INDEX_TIP < length lms")
  case True
  then obtain d c where dc: "calculatePinchDistance lms = Inr d" "calculateHandCenter lms = Inr c"
    using geometry_defined by blast
  with assms processHandLandmarks_Inr [OF dc, of i s] that show ?thesis by simp
next
  case False
  with assms show ?thesis
    by (simp add: processHandLandmarks_def geometry_undefined)
qed

lemma slotAfter_same [simp]:
  "slotPosition (slotAfter d c i s) i = handPosition (slotGesture d c i s)"
  "slotPinch (slotAfter d c i s) i = pinchDistance (slotGesture d c i s)"
  "slotGrabbing (slotAfter d c i s) i = isGrabbing (slotGesture d c i s)"
  "slotPending (slotAfter d c i s) i = fst (snd (slotDebounce d i s))"
  "slotCounter (slotAfter d c i s) i = snd (snd (slotDebounce d i s))"
  by (simp_all add: slotAfter_def slotPosition_def slotPinch_def slotGrabbing_def
      slotPending_def slotCounter_def)

lemma slotAfter_other [simp]:
  assumes "j \<noteq> i"
  shows "slotPosition (slotAfter d c i s) j = slotPosition s j"
    and "slotPinch (slotAfter d c i s) j = slotPinch s j"
    and "slotGrabbing (slotAfter d c i s) j = slotGrabbing s j"
    and "slotPending (slotAfter d c i s) j = slotPending s j"
    and "slotCounter (slotAfter d c i s) j = slotCounter s j"
  using assms
  by (simp_all add: slotAfter_def slotPosition_def slotPinch_def slotGrabbing_def
      slotPending_def slotCounter_def)

lemma slotAfter_fields [simp]:
  "gesture (slotAfter d c i s) = gesture s"
  "twoHandGesture (slotAfter d c i s) = twoHandGesture s"
  "wasGrabbingRef (slotAfter d c i s) = wasGrabbingRef s"
  "stateChangeCounterRef (slotAfter d c i s) = stateChangeCounterRef s"
  "pendingStateRef (slotAfter d c i s) = pendingStateRef s"
  "smoothedPositionRef (slotAfter d c i s) = smoothedPositionRef s"
  "smoothedPinchRef (slotAfter d c i s) = smoothedPinchRef s"
  "prevPullDistanceRef (slotAfter d c i s) = prevPullDistanceRef s"
  by (simp_all add: slotAfter_def)

lemma slotGesture_fields [simp]:
  "isGrabbing (slotGesture d c i s) = fst (slotDebounce d i s)"
  "pinchDistance (slotGesture d c i s) = smoothPinch (slotPinch s i) d"
  "handPosition (slotGesture d c i s) =
     Some (smoothPosition (slotPosition s i) (- (x3 c * 2 - 1)) (- (y3 c * 2 - 1)) (z3 c))"
  "confidence (slotGesture d c i s) = 1"
  by (simp_all add: slotGesture_def)

subsection \<open>Concrete hands\<close>

lemma length_handWith [simp]: "length (handWith t x) = 21"
  by (simp add: handWith_def)

lemma landmarkAt_handWith [simp]:
  "landmarkAt (handWith t x) THUMB_TIP = Some t"
  "landmarkAt (handWith t x) INDEX_TIP = Some x"
  by (simp_all add: landmarkAt_def handWith_def THUMB_TIP_def INDEX_TIP_def nth_append)

lemma pinch_handWith [simp]:
  "calculatePinchDistance (handWith (lm a b c) (lm a' b c)) = Inr \<bar>a - a'\<bar>"
  by (simp add: calculatePinchDistance_def lm_def)

lemma center_handWith [simp]:
  "calculateHandCenter (handWith (lm a b c) (lm a' b' c')) =
     Inr \<lparr>x3 = (a + a') / 2, y3 = (b + b') / 2, z3 = (c + c') / 2\<rparr>"
  by (simp add: calculateHandCenter_def lm_def)

lemma draw_handWith [simp]: "drawLandmarks (handWith t x) = Inr ()"
  by (simp add: drawLandmarks_def connections_def landmarkAt_def)

lemma drawLandmarks_complete:
  assumes "length h = 21"
  shows "drawLandmarks h = Inr ()"
  using assms by (simp add: drawLandmarks_def connections_def landmarkAt_def)

lemma drawLandmarks_short:
  assumes "length h < 21"
  shows "drawLandmarks h = Inl TypeError"
  using assms by (simp add: drawLandmarks_def connections_def landmarkAt_def)

section \<open>The single-hand filter over its refs\<close>

lemma processLandmarks_Inr:
  assumes "calculatePinchDistance lms = Inr d" and "calculateHandCenter lms = Inr c"
  shows "processLandmarks lms s = Inr (singleAfter d c s)"
  using assms
  by (simp add: processLandmarks_def singleAfter_def singleGesture_def singleDebounce_def Let_def
      split: prod.splits)

lemma processLandmarks_Inl:
  assumes "\<not> INDEX_TIP < length lms"
  shows "processLandmarks lms s = Inl TypeError"
  using assms by (simp add: processLandmarks_def geometry_undefined)

lemma processLandmarks_cases:
  assumes "processLandmarks lms s = Inr s'"
  obtains d c where "calculatePinchDistance lms = Inr d" and "calculateHandCenter lms = Inr c"
    and "s' = singleAfter d c s"
proof (cases "INDEX_TIP < length lms")
  case True
  then obtain d c where dc: "calculatePinchDistance lms = Inr d" "calculateHandCenter lms = Inr c"
    using geometry_defined by blast
  with assms processLandmarks_Inr [OF dc, of s] that show ?thesis by simp
next
  case False
  with assms show ?thesis by (simp add: processLandmarks_Inl)
qed

lemma singleGesture_fields [simp]:
  "isGrabbing (singleGesture d c s) = fst (singleDebounce d s)"
  "pinchDistance (singleGesture d c s) = smoothPinch (smoothedPinchRef s) d"
  "handPosition (singleGesture d c s) =
     Some (smoothPosition (smoothedPositionRef s) (- (x3 c * 2 - 1)) (- (y3 c * 2 - 1)) (z3 c))"
  "confidence (singleGesture d c s) = 1"
  by (simp_all add: singleGesture_def)

lemma singleAfter_fields [simp]:
  "gesture (singleAfter d c s) = singleGesture d c s"
  "twoHandGesture (singleAfter d c s) = twoHandGesture s"
  "wasGrabbingRef (singleAfter d c s) = fst (singleDebounce d s)"
  "pendingStateRef (singleAfter d c s) = fst (snd (singleDebounce d s))"
  "stateChangeCounterRef (singleAfter d c s) = snd (snd (singleDebounce d s))"
  "smoothedPinchRef (singleAfter d c s) = smoothPinch (smoothedPinchRef s) d"
  "smoothedPositionRef (singleAfter d c s) =
     Some (smoothPosition (smoothedPositionRef s) (- (x3 c * 2 - 1)) (- (y3 c * 2 - 1)) (z3 c))"
  "prevPullDistanceRef (singleAfter d c s) = prevPullDistanceRef s"
  by (simp_all add: singleAfter_def)

lemma singleAfter_slots [simp]:
  "slotPosition (singleAfter d c s) i = slotPosition s i"
  "slotPinch (singleAfter d c s) i = slotPinch s i"
  "slotGrabbing (singleAfter d c s) i = slotGrabbing s i"
  "slotPending (singleAfter d c s) i = slotPending s i"
  "slotCounter (singleAfter d c s) i = slotCounter s i"
  by (simp_all add: singleAfter_def slotPosition_def slotPinch_def slotGrabbing_def
      slotPending_def slotCounter_def)

section \<open>The aggregator and the reset\<close>

lemma processTwoHandGesture_state:
  "snd (processTwoHandGesture h0 h1 l0 l1 s) =
     s\<lparr>prevPullDistanceRef := pullDistance (fst (processTwoHandGesture h0 h1 l0 l1 s)),
       twoHandGesture := fst (processTwoHandGesture h0 h1 l0 l1 s)\<rparr>"
  by (simp add: processTwoHandGesture_def Let_def split: prod.splits)

lemma processTwoHandGesture_indep:
  "fst (processTwoHandGesture h0 h1 l0 l1 s) = fst (processTwoHandGesture h0 h1 l0 l1 s')"
  by (simp add: processTwoHandGesture_def Let_def split: prod.splits)

lemma processTwoHandGesture_fields [simp]:
  "gesture (snd (processTwoHandGesture h0 h1 l0 l1 s)) = gesture s"
  "twoHandGesture (snd (processTwoHandGesture h0 h1 l0 l1 s)) =
     fst (processTwoHandGesture h0 h1 l0 l1 s)"
  "wasGrabbingRef (snd (processTwoHandGesture h0 h1 l0 l1 s)) = wasGrabbingRef s"
  "pendingStateRef (snd (processTwoHandGesture h0 h1 l0 l1 s)) = pendingStateRef s"
  "stateChangeCounterRef (snd (processTwoHandGesture h0 h1 l0 l1 s)) = stateChangeCounterRef s"
  "smoothedPinchRef (snd (processTwoHandGesture h0 h1 l0 l1 s)) = smoothedPinchRef s"
  "smoothedPositionRef (snd (processTwoHandGesture h0 h1 l0 l1 s)) = smoothedPositionRef s"
  by (simp_all add: processTwoHandGesture_state)

lemma processTwoHandGesture_slots [simp]:
  "slotPosition (snd (processTwoHandGesture h0 h1 l0 l1 s)) i = slotPosition s i"
  "slotPinch (snd (processTwoHandGesture h0 h1 l0 l1 s)) i = slotPinch s i"
  "slotGrabbing (snd (processTwoHandGesture h0 h1 l0 l1 s)) i = slotGrabbing s i"
  "slotPending (snd (processTwoHandGesture h0 h1 l0 l1 s)) i = slotPending s i"
  "slotCounter (snd (processTwoHandGesture h0 h1 l0 l1 s)) i = slotCounter s i"
  by (simp_all add: processTwoHandGesture_state slotPosition_def slotPinch_def slotGrabbing_def
      slotPending_def slotCounter_def)

lemma resetNoHands_fields [simp]:
  "gesture (resetNoHands s) = noHandGesture"
  "twoHandGesture (resetNoHands s) = noTwoHandGesture"
  "wasGrabbingRef (resetNoHands s) = False"
  "pendingStateRef (resetNoHands s) = pendingStateRef s"
  "stateChangeCounterRef (resetNoHands s) = stateChangeCounterRef s"
  "smoothedPinchRef (resetNoHands s) = smoothedPinchRef s"
  "smoothedPositionRef (resetNoHands s) = smoothedPositionRef s"
  "wasGrabbingRefsPerHand (resetNoHands s) = Map.empty"
  "stateChangeCountersPerHand (resetNoHands s) = Map.empty"
  "pendingStatesPerHand (resetNoHands s) = Map.empty"
  "smoothedPositionsPerHand (resetNoHands s) = Map.empty"
  "smoothedPinchesPerHand (resetNoHands s) = Map.empty"
  by (simp_all add: resetNoHands_def)

lemma resetNoHands_slots [simp]:
  "slotPosition (resetNoHands s) i = None"
  "slotPinch (resetNoHands s) i = 1"
  "slotGrabbing (resetNoHands s) i = False"
  "slotPending (resetNoHands s) i = None"
  "slotCounter (resetNoHands s) i = 0"
  by (simp_all add: slotPosition_def slotPinch_def slotGrabbing_def slotPending_def
      slotCounter_def)

lemma initialState_fields [simp]:
  "gesture initialState = noHandGesture"
  "twoHandGesture initialState = noTwoHandGesture"
  "wasGrabbingRef initialState = False"
  "pendingStateRef initialState = None"
  "stateChangeCounterRef initialState = 0"
  "smoothedPinchRef initialState = 1"
  "smoothedPositionRef initialState = None"
  by (simp_all add: initialState_def)

lemma initialState_slots [simp]:
  "slotPosition initialState i = None"
  "slotPinch initialState i = 1"
  "slotGrabbing initialState i = False"
  "slotPending initialState i = None"
  "slotCounter initialState i = 0"
  by (simp_all add: initialState_def slotPosition_def slotPinch_def slotGrabbing_def
      slotPending_def slotCounter_def)

section \<open>Frames\<close>

lemma onResults_not_ready [simp]: "onResults False r s = (None, s)"
  by (simp add: onResults_def)

lemma onResults_no_hands:
  assumes "multiHandLandmarks r = None \<or> multiHandLandmarks r = Some []"
  shows "onResults True r s = (None, resetNoHands s)"
  using assms by (auto simp: onResults_def)

lemma onResults_noHandsFrame [simp]: "onResults True noHandsFrame s = (None, resetNoHands s)"
  by (simp add: onResults_no_hands noHandsFrame_def)

lemma onResults_one_hand:
  assumes "calculatePinchDistance h = Inr d" and "calculateHandCenter h = Inr c"
    and "drawLandmarks h = Inr ()"
  shows "onResults True (oneHandFrame h) s =
     (None, snd (processTwoHandGesture (Some (slotGesture d c 0 s)) None None None
                   (slotAfter d c 0 (singleAfter d c s))))"
proof -
  have g: "slotGesture d c 0 (singleAfter d c s) = slotGesture d c 0 s"
    by (simp add: slotGesture_def slotDebounce_def)
  show ?thesis
    using assms
    by (simp add: onResults_def oneHandFrame_def processLandmarks_Inr processHandLandmarks_Inr
        elemAt_def handednessAt_def g)
qed

lemma runFrames_Nil [simp]: "runFrames c [] s = s"
  by (simp add: runFrames_def)

lemma runFrames_Cons [simp]: "runFrames c (r # rs) s = runFrames c rs (snd (onResults c r s))"
  by (simp add: runFrames_def)

lemma runFrames_append: "runFrames c (rs @ rs') s = runFrames c rs' (runFrames c rs s)"
  by (simp add: runFrames_def)

lemma runHand_append:
  "runHand i (xs @ ys) s =
     (case runHand i xs s of
        Inl e \<Rightarrow> Inl e
      | Inr (gs, s1) \<Rightarrow>
         (case runHand i ys s1 of
            Inl e \<Rightarrow> Inl e
          | Inr (gs', s2) \<Rightarrow> Inr (gs @ gs', s2)))"
  by (induction xs arbitrary: s) (auto split: sum.splits prod.splits)

section \<open>Evaluating concrete frame sequences\<close>

lemma slotView_after: "slotView (slotAfter d c i s) i = viewStep d (slotView s i)"
  by (simp add: slotView_def slotDebounce_def split: prod.splits)

lemma slotGesture_view:
  "isGrabbing (slotGesture d c i s) = fst (viewStep d (slotView s i))"
  "pinchDistance (slotGesture d c i s) = snd (snd (snd (viewStep d (slotView s i))))"
  by (simp_all add: slotView_def slotDebounce_def split: prod.splits)

lemma slotView_initial: "slotView initialState i = (False, None, 0, 1)"
  by (simp add: slotView_def)

lemma slotView_reset: "slotView (resetNoHands s) i = (False, None, 0, 1)"
  by (simp add: slotView_def)

lemma slotView_singleAfter: "slotView (singleAfter d c s) i = slotView s i"
  by (simp add: slotView_def)

lemma slotView_aggregated: "slotView (snd (processTwoHandGesture h0 h1 l0 l1 s)) i = slotView s i"
  by (simp add: slotView_def)

lemma singleView_after: "singleView (singleAfter d c s) = viewStep d (singleView s)"
  by (simp add: singleView_def singleDebounce_def split: prod.splits)

lemma singleGesture_view:
  "isGrabbing (singleGesture d c s) = fst (viewStep d (singleView s))"
  "pinchDistance (singleGesture d c s) = snd (snd (snd (viewStep d (singleView s))))"
  by (simp_all add: singleView_def singleDebounce_def split: prod.splits)

lemma singleView_initial: "singleView initialState = (False, None, 0, 1)"
  by (simp add: singleView_def)

lemma singleView_reset:
  "singleView (resetNoHands s) = (False, snd (singleView s))"
  by (simp add: singleView_def)

lemma singleView_slotAfter: "singleView (slotAfter d c i s) = singleView s"
  by (simp add: singleView_def)

lemma singleView_aggregated: "singleView (snd (processTwoHandGesture h0 h1 l0 l1 s)) = singleView s"
  by (simp add: singleView_def)

lemmas view_evals = debounce_def targetStateOf_def smoothPinch_def
  PINCH_THRESHOLD_def PINCH_RELEASE_THRESHOLD_def PINCH_SMOOTHING_def STATE_CHANGE_FRAMES_def

lemma pinchHand_geometry:
  "calculatePinchDistance (pinchHand d) = Inr \<bar>d\<bar>"
  "calculateHandCenter (pinchHand d) = Inr \<lparr>x3 = (1 + d) / 2, y3 = 1 / 2, z3 = 0\<rparr>"
  "drawLandmarks (pinchHand d) = Inr ()"
  by (simp_all add: pinchHand_def field_simps)

lemma processHandLandmarks_pinchHand:
  "processHandLandmarks (pinchHand d) i s =
     Inr (slotGesture \<bar>d\<bar> \<lparr>x3 = (1 + d) / 2, y3 = 1 / 2, z3 = 0\<rparr> i s,
          slotAfter \<bar>d\<bar> \<lparr>x3 = (1 + d) / 2, y3 = 1 / 2, z3 = 0\<rparr> i s)"
  by (rule processHandLandmarks_Inr) (rule pinchHand_geometry)+

lemma closedFrames_6:
  "closedFrames 6 =
     [pinchHand 0, pinchHand 0, pinchHand 0, pinchHand 0, pinchHand 0, pinchHand 0]"
  by (simp add: closedFrames_def numeral_eq_Suc)

lemma heldState_view: "slotView heldState 0 = (True, None, 0, 1 / 10)"
proof -
  have "slotView heldState 0 =
     viewStep (59 / 320) (viewStep 0 (viewStep 0 (viewStep 0 (viewStep 0 (viewStep 0
       (viewStep 0 (False, None, 0, 1)))))))"
    by (simp add: heldState_def runHand_append closedFrames_6 processHandLandmarks_pinchHand
        slotView_after slotView_initial del: slotGesture_fields slotAfter_same)
  then show ?thesis by (simp add: view_evals)
qed

section \<open>Hysteresis\<close>

lemma hysteresis_keep:
  assumes "if g then d \<le> PINCH_RELEASE_THRESHOLD else PINCH_THRESHOLD \<le> d"
  shows "targetStateOf g d = g"
  using assms by (auto simp: targetStateOf_def)

lemma debounce_same [simp]: "debounce g p n g = (g, None, 0)"
  by (simp add: debounce_def)

lemma slotDebounce_keep:
  assumes "targetStateOf (slotGrabbing s i) (smoothPinch (slotPinch s i) d) = slotGrabbing s i"
  shows "slotDebounce d i s = (slotGrabbing s i, None, 0)"
  using assms by (simp add: slotDebounce_def)

lemma runHand_Cons_cases:
  assumes "runHand i (f # frames) s = Inr (gs, s')"
  obtains d c gs1 where "gs = slotGesture d c i s # gs1"
    and "runHand i frames (slotAfter d c i s) = Inr (gs1, s')"
proof -
  from assms obtain g s1 gs1 where
    step: "processHandLandmarks f i s = Inr (g, s1)" and
    rest: "runHand i frames s1 = Inr (gs1, s')" and
    gs: "gs = g # gs1"
    by (auto split: sum.splits prod.splits)
  from step obtain d c where "g = slotGesture d c i s" and "s1 = slotAfter d c i s"
    by (rule processHandLandmarks_cases)
  with rest gs that show ?thesis by simp
qed

text \<open>
  A hand that is grabbing stays so while no smoothed sample exceeds the release
  threshold, and a hand that is not grabbing stays so while no smoothed sample falls
  below the pinch threshold.
\<close>

lemma runHand_stays:
  assumes "runHand i frames s = Inr (gs, s')"
    and "\<forall>g \<in> set gs. if slotGrabbing s i then pinchDistance g \<le> PINCH_RELEASE_THRESHOLD
                         else PINCH_THRESHOLD \<le> pinchDistance g"
  shows "(\<forall>g \<in> set gs. isGrabbing g = slotGrabbing s i) \<and> slotGrabbing s' i = slotGrabbing s i"
  using assms
proof (induction frames arbitrary: s gs)
  case Nil
  then show ?case by simp
next
  case (Cons f frames)
  from Cons.prems(1) obtain d c gs1 where
    gs: "gs = slotGesture d c i s # gs1" and
    rest: "runHand i frames (slotAfter d c i s) = Inr (gs1, s')"
    by (rule runHand_Cons_cases)
  from Cons.prems(2) gs
  have "if slotGrabbing s i then smoothPinch (slotPinch s i) d \<le> PINCH_RELEASE_THRESHOLD
        else PINCH_THRESHOLD \<le> smoothPinch (slotPinch s i) d"
    by (auto split: if_splits)
  then have keep: "slotDebounce d i s = (slotGrabbing s i, None, 0)"
    by (intro slotDebounce_keep hysteresis_keep)
  then have same: "isGrabbing (slotGesture d c i s) = slotGrabbing s i"
    "slotGrabbing (slotAfter d c i s) i = slotGrabbing s i"
    by simp_all
  with Cons.prems(2) gs
  have "\<forall>g \<in> set gs1. if slotGrabbing (slotAfter d c i s) i
                         then pinchDistance g \<le> PINCH_RELEASE_THRESHOLD
                         else PINCH_THRESHOLD \<le> pinchDistance g"
    by (auto split: if_splits)
  from Cons.IH [OF rest this] same gs show ?case by simp
qed

text \<open>
  Claim C3 (hysteresis). The per-hand filter of hand index \<open>i\<close> runs over any sequence
  of frames, from any refs. If every smoothed pinch distance it returns lies strictly
  between \<open>PINCH_THRESHOLD = 0.055\<close> and \<open>PINCH_RELEASE_THRESHOLD = 0.16\<close>, then
  \<open>isGrabbing\<close> has in every frame, and in the refs at the end, the value committed
  before the sequence: a committed \<open>true\<close> does not become \<open>false\<close>, and a committed
  \<open>false\<close> does not become \<open>true\<close>.
\<close>

theorem hysteresis_gap:
  assumes "runHand i frames s = Inr (gs, s')"
    and "\<forall>g \<in> set gs. PINCH_THRESHOLD < pinchDistance g \<and>
                         pinchDistance g < PINCH_RELEASE_THRESHOLD"
  shows "(\<forall>g \<in> set gs. isGrabbing g = slotGrabbing s i) \<and> slotGrabbing s' i = slotGrabbing s i"
proof (rule runHand_stays [OF assms(1)])
  from assms(2)
  show "\<forall>g \<in> set gs. if slotGrabbing s i then pinchDistance g \<le> PINCH_RELEASE_THRESHOLD
                         else PINCH_THRESHOLD \<le> pinchDistance g"
    by auto
qed

text \<open>
  The theorem at a held hand (grabbing, smoothed pinch distance 0.1) whose fingers hover
  at raw distances 0.1 and 0.12: the smoothed samples are 0.1 and 0.11, and the hand
  stays grabbing.
\<close>

theorem hysteresis_gap_witness:
  "\<not> isl (runHand 0 [pinchHand 0.1, pinchHand 0.12] heldState) \<and>
   map pinchDistance (fst (projr (runHand 0 [pinchHand 0.1, pinchHand 0.12] heldState)))
     = [0.1, 0.11] \<and>
   map isGrabbing (fst (projr (runHand 0 [pinchHand 0.1, pinchHand 0.12] heldState)))
     = [True, True] \<and>
   slotGrabbing (snd (projr (runHand 0 [pinchHand 0.1, pinchHand 0.12] heldState))) 0"
proof -
  obtain gs s' where run: "runHand 0 [pinchHand 0.1, pinchHand 0.12] heldState = Inr (gs, s')"
    by (simp add: processHandLandmarks_pinchHand)
  then obtain g1 g2 where gs: "gs = [g1, g2]"
    by (auto simp: processHandLandmarks_pinchHand)
  have "map pinchDistance gs =
     [snd (snd (snd (viewStep (1 / 10) (slotView heldState 0)))),
      snd (snd (snd (viewStep (3 / 25) (viewStep (1 / 10) (slotView heldState 0)))))]"
    using run
    by (auto simp: processHandLandmarks_pinchHand slotGesture_view slotView_after
        simp del: slotGesture_fields slotAfter_same)
  then have pd: "map pinchDistance gs = [1 / 10, 11 / 100]"
    by (simp add: heldState_view view_evals)
  then have "\<forall>g \<in> set gs. PINCH_THRESHOLD < pinchDistance g \<and>
                            pinchDistance g < PINCH_RELEASE_THRESHOLD"
    by (simp add: gs PINCH_THRESHOLD_def PINCH_RELEASE_THRESHOLD_def)
  from hysteresis_gap [OF run this]
  have "(\<forall>g \<in> set gs. isGrabbing g = slotGrabbing heldState 0) \<and>
        slotGrabbing s' 0 = slotGrabbing heldState 0" .
  moreover have "slotGrabbing heldState 0"
    using heldState_view by (simp add: slotView_def)
  ultimately show ?thesis
    unfolding run using pd by (simp add: gs)
qed

section \<open>Debounce\<close>

lemma debounce_commit:
  assumes "fst (debounce g p n t) \<noteq> g"
  shows "p = Some t \<and> t \<noteq> g \<and> STATE_CHANGE_FRAMES \<le> n + 1 \<and> debounce g p n t = (t, None, 0)"
  using assms by (auto simp: debounce_def split: if_splits)

lemma debounce_pending:
  assumes "fst (snd (debounce g p n t)) = Some t'"
  shows "t' = t \<and> t \<noteq> g \<and> fst (debounce g p n t) = g \<and> snd (snd (debounce g p n t)) = 1"
  using assms by (auto simp: debounce_def STATE_CHANGE_FRAMES_def split: if_splits)

lemma debounce_new:
  assumes "t \<noteq> g" and "p \<noteq> Some t"
  shows "debounce g p n t = (g, Some t, 1)"
  using assms by (simp add: debounce_def)

text \<open>
  Claim C4 (debounce). Two consecutive frames of the per-hand filter of hand index \<open>i\<close>,
  from any refs \<open>s0\<close>; \<open>t1\<close> and \<open>t2\<close> are the targets the two frames compute from the
  committed value and the smoothed sample.
  \<^item> If the second frame changes \<open>isGrabbing\<close>, then both frames computed the new value
    as their target, the first frame did not change \<open>isGrabbing\<close>, the candidate pending
    between the frames is that value with the counter at 1, so that the second frame
    brings it to \<open>STATE_CHANGE_FRAMES = 2\<close>, and the commit clears the candidate.
  \<^item> A frame whose target differs from the committed value and from the pending
    candidate makes the target the candidate, with counter 1, and commits nothing.
  \<^item> A frame whose target is the committed value clears candidate and counter.
  \<^item> A single spike (a target other than the committed value and other than the
    candidate pending before it) followed by a frame whose target is the committed
    value leaves \<open>isGrabbing\<close> at its value in both frames.
\<close>

theorem debounce_invariant:
  assumes "processHandLandmarks lms1 i s0 = Inr (g1, s1)"
    and "processHandLandmarks lms2 i s1 = Inr (g2, s2)"
    and "t1 = targetStateOf (slotGrabbing s0 i) (pinchDistance g1)"
    and "t2 = targetStateOf (slotGrabbing s1 i) (pinchDistance g2)"
  shows "(isGrabbing g2 \<noteq> isGrabbing g1 \<longrightarrow>
            t1 = isGrabbing g2 \<and> t2 = isGrabbing g2 \<and> isGrabbing g1 = slotGrabbing s0 i \<and>
            slotPending s1 i = Some (isGrabbing g2) \<and> slotCounter s1 i = 1 \<and>
            slotCounter s1 i + 1 = STATE_CHANGE_FRAMES \<and>
            slotPending s2 i = None \<and> slotCounter s2 i = 0) \<and>
         (t2 \<noteq> isGrabbing g1 \<and> slotPending s1 i \<noteq> Some t2 \<longrightarrow>
            slotPending s2 i = Some t2 \<and> slotCounter s2 i = 1 \<and> isGrabbing g2 = isGrabbing g1) \<and>
         (t2 = isGrabbing g1 \<longrightarrow>
            slotPending s2 i = None \<and> slotCounter s2 i = 0 \<and> isGrabbing g2 = isGrabbing g1) \<and>
         (t1 \<noteq> slotGrabbing s0 i \<and> slotPending s0 i \<noteq> Some t1 \<and> t2 = isGrabbing g1 \<longrightarrow>
            isGrabbing g1 = slotGrabbing s0 i \<and> isGrabbing g2 = slotGrabbing s0 i)"
proof -
  from assms(1) obtain d1 c1 where g1: "g1 = slotGesture d1 c1 i s0" and s1: "s1 = slotAfter d1 c1 i s0"
    by (rule processHandLandmarks_cases)
  from assms(2) obtain d2 c2 where g2: "g2 = slotGesture d2 c2 i s1" and s2: "s2 = slotAfter d2 c2 i s1"
    by (rule processHandLandmarks_cases)
  define D1 where "D1 = debounce (slotGrabbing s0 i) (slotPending s0 i) (slotCounter s0 i) t1"
  define D2 where "D2 = debounce (slotGrabbing s1 i) (slotPending s1 i) (slotCounter s1 i) t2"
  have e1: "slotDebounce d1 i s0 = D1"
    by (simp add: D1_def slotDebounce_def assms(3) g1)
  have e2: "slotDebounce d2 i s1 = D2"
    by (simp add: D2_def slotDebounce_def assms(4) g2)
  have v1: "isGrabbing g1 = fst D1" "slotGrabbing s1 i = fst D1" "slotPending s1 i = fst (snd D1)"
    "slotCounter s1 i = snd (snd D1)"
    by (simp_all add: g1 s1 e1)
  have v2: "isGrabbing g2 = fst D2" "slotPending s2 i = fst (snd D2)"
    "slotCounter s2 i = snd (snd D2)"
    by (simp_all add: g2 s2 e2)
  have A: "t1 = isGrabbing g2 \<and> t2 = isGrabbing g2 \<and> isGrabbing g1 = slotGrabbing s0 i \<and>
            slotPending s1 i = Some (isGrabbing g2) \<and> slotCounter s1 i = 1 \<and>
            slotCounter s1 i + 1 = STATE_CHANGE_FRAMES \<and>
            slotPending s2 i = None \<and> slotCounter s2 i = 0"
    if "isGrabbing g2 \<noteq> isGrabbing g1"
  proof -
    from that have "fst D2 \<noteq> slotGrabbing s1 i" by (auto simp: v1 v2)
    from debounce_commit [OF this [unfolded D2_def]]
    have c: "slotPending s1 i = Some t2" "D2 = (t2, None, 0)"
      unfolding D2_def by blast+
    from c(1) have "fst (snd D1) = Some t2" by (simp add: v1)
    from debounce_pending [OF this [unfolded D1_def]]
    have p: "t2 = t1" "fst D1 = slotGrabbing s0 i" "snd (snd D1) = 1"
      unfolding D1_def by blast+
    show ?thesis
      using c p by (simp add: v1 v2 STATE_CHANGE_FRAMES_def)
  qed
  have B: "slotPending s2 i = Some t2 \<and> slotCounter s2 i = 1 \<and> isGrabbing g2 = isGrabbing g1"
    if "t2 \<noteq> isGrabbing g1 \<and> slotPending s1 i \<noteq> Some t2"
  proof -
    from that have "t2 \<noteq> slotGrabbing s1 i" "slotPending s1 i \<noteq> Some t2"
      by (auto simp: v1)
    from debounce_new [OF this] show ?thesis
      by (simp add: v1 v2 D2_def)
  qed
  have C: "slotPending s2 i = None \<and> slotCounter s2 i = 0 \<and> isGrabbing g2 = isGrabbing g1"
    if "t2 = isGrabbing g1"
    using that by (simp add: v1 v2 D2_def)
  have D: "isGrabbing g1 = slotGrabbing s0 i \<and> isGrabbing g2 = slotGrabbing s0 i"
    if "t1 \<noteq> slotGrabbing s0 i \<and> slotPending s0 i \<noteq> Some t1 \<and> t2 = isGrabbing g1"
  proof -
    from that have "D1 = (slotGrabbing s0 i, Some t1, 1)"
      unfolding D1_def by (intro debounce_new) blast+
    with C that show ?thesis by (auto simp: v1)
  qed
  from A B C D show ?thesis by blast
qed

lemma closedState_4_view: "slotView (closedState 4) 0 = (False, None, 0, 1 / 16)"
proof -
  have "closedFrames 4 = [pinchHand 0, pinchHand 0, pinchHand 0, pinchHand 0]"
    by (simp add: closedFrames_def numeral_eq_Suc)
  then have "slotView (closedState 4) 0 =
     viewStep 0 (viewStep 0 (viewStep 0 (viewStep 0 (False, None, 0, 1))))"
    by (simp add: closedState_def processHandLandmarks_pinchHand slotView_after slotView_initial
        del: slotGesture_fields slotAfter_same)
  then show ?thesis by (simp add: view_evals)
qed

text \<open>
  The theorem at the fifth and sixth frame of a hand with closed fingers: the smoothed
  samples 1/32 and 1/64 are both below the pinch threshold, the fifth frame makes
  \<open>true\<close> the candidate with counter 1, and the sixth frame commits it.
\<close>

theorem debounce_invariant_witness:
  "\<not> isl (processHandLandmarks (pinchHand 0) 0 (closedState 4)) \<and>
   \<not> isl (processHandLandmarks (pinchHand 0) 0
            (snd (projr (processHandLandmarks (pinchHand 0) 0 (closedState 4))))) \<and>
   \<not> isGrabbing (fst (projr (processHandLandmarks (pinchHand 0) 0 (closedState 4)))) \<and>
   isGrabbing (fst (projr (processHandLandmarks (pinchHand 0) 0
            (snd (projr (processHandLandmarks (pinchHand 0) 0 (closedState 4))))))) \<and>
   slotPending (snd (projr (processHandLandmarks (pinchHand 0) 0 (closedState 4)))) 0 = Some True \<and>
   slotCounter (snd (projr (processHandLandmarks (pinchHand 0) 0 (closedState 4)))) 0 = 1 \<and>
   slotPending (snd (projr (processHandLandmarks (pinchHand 0) 0
            (snd (projr (processHandLandmarks (pinchHand 0) 0 (closedState 4))))))) 0 = None"
proof -
  define c where "c = \<lparr>x3 = (1 + 0) / 2, y3 = 1 / 2, z3 = (0::real)\<rparr>"
  define g1 where "g1 = slotGesture \<bar>0\<bar> c 0 (closedState 4)"
  define s1 where "s1 = slotAfter \<bar>0\<bar> c 0 (closedState 4)"
  define g2 where "g2 = slotGesture \<bar>0\<bar> c 0 s1"
  define s2 where "s2 = slotAfter \<bar>0\<bar> c 0 s1"
  have p1: "processHandLandmarks (pinchHand 0) 0 (closedState 4) = Inr (g1, s1)"
    unfolding g1_def s1_def c_def by (rule processHandLandmarks_pinchHand)
  have p2: "processHandLandmarks (pinchHand 0) 0 s1 = Inr (g2, s2)"
    unfolding g2_def s2_def c_def by (rule processHandLandmarks_pinchHand)
  have "isGrabbing g1 = fst (viewStep 0 (False, None, 0, 1 / 16))"
    by (simp add: g1_def slotGesture_view closedState_4_view del: slotGesture_fields)
  then have n1: "\<not> isGrabbing g1" by (simp add: view_evals)
  have "isGrabbing g2 = fst (viewStep 0 (viewStep 0 (False, None, 0, 1 / 16)))"
    by (simp add: g2_def s1_def slotGesture_view slotView_after closedState_4_view
        del: slotGesture_fields slotAfter_same)
  then have n2: "isGrabbing g2" by (simp add: view_evals)
  from debounce_invariant [OF p1 p2 refl refl] n1 n2
  have "slotPending s1 0 = Some True \<and> slotCounter s1 0 = 1 \<and> slotPending s2 0 = None"
    by simp
  with n1 n2 show ?thesis by (simp add: p1 p2)
qed

section \<open>The first commit of a grab\<close>

lemma open_step:
  assumes "\<not> slotGrabbing s i" and "(slotPending s i = Some True) = b"
    and "b \<longrightarrow> 1 \<le> slotCounter s i"
  shows "fst (slotDebounce d i s) = (b \<and> smoothPinch (slotPinch s i) d < PINCH_THRESHOLD)"
    and "\<not> fst (slotDebounce d i s) \<Longrightarrow>
           (fst (snd (slotDebounce d i s)) = Some True) =
             (smoothPinch (slotPinch s i) d < PINCH_THRESHOLD)"
    and "\<not> fst (slotDebounce d i s) \<Longrightarrow> smoothPinch (slotPinch s i) d < PINCH_THRESHOLD \<Longrightarrow>
           1 \<le> snd (snd (slotDebounce d i s))"
  using assms
  by (auto simp: slotDebounce_def debounce_def targetStateOf_def STATE_CHANGE_FRAMES_def
      split: if_splits)

lemma commit_from_open:
  assumes "runHand i frames s = Inr (gs, s')"
    and "\<not> slotGrabbing s i" and "(slotPending s i = Some True) = b"
    and "b \<longrightarrow> 1 \<le> slotCounter s i"
    and "k < length gs" and "\<forall>j<k. \<not> isGrabbing (gs ! j)"
  shows "isGrabbing (gs ! k) =
           ((if k = 0 then b else pinchDistance (gs ! (k - 1)) < PINCH_THRESHOLD) \<and>
            pinchDistance (gs ! k) < PINCH_THRESHOLD)"
  using assms
proof (induction frames arbitrary: s gs k b)
  case Nil
  then show ?case by simp
next
  case (Cons f frames)
  from Cons.prems(1) obtain g s1 gs1 where
    step: "processHandLandmarks f i s = Inr (g, s1)" and
    rest: "runHand i frames s1 = Inr (gs1, s')" and
    gs: "gs = g # gs1"
    by (auto split: sum.splits prod.splits)
  from step obtain d c where g: "g = slotGesture d c i s" and s1: "s1 = slotAfter d c i s"
    by (rule processHandLandmarks_cases)
  note os = open_step [OF Cons.prems(2,3,4), of d]
  have g0: "isGrabbing g = (b \<and> pinchDistance g < PINCH_THRESHOLD)"
    using os(1) by (simp add: g)
  show ?case
  proof (cases k)
    case 0
    with g0 gs show ?thesis by simp
  next
    case (Suc k')
    with Cons.prems(6) gs have ng: "\<not> isGrabbing g" by auto
    then have nd: "\<not> fst (slotDebounce d i s)" by (simp add: g)
    have a: "\<not> slotGrabbing s1 i" using nd by (simp add: s1)
    have b: "(slotPending s1 i = Some True) = (pinchDistance g < PINCH_THRESHOLD)"
      using os(2) [OF nd] by (simp add: s1 g)
    have c: "pinchDistance g < PINCH_THRESHOLD \<longrightarrow> 1 \<le> slotCounter s1 i"
      using os(3) [OF nd] by (simp add: s1 g)
    have d: "k' < length gs1" using Cons.prems(5) gs Suc by simp
    have e: "\<forall>j<k'. \<not> isGrabbing (gs1 ! j)"
      using Cons.prems(6) gs Suc by auto
    from Cons.IH [OF rest a b c d e] gs Suc show ?thesis
      by (cases k') simp_all
  qed
qed

text \<open>
  The five-frame scenario: the smoothed samples are 0.6, 0.4, 0.225, 0.1375 and 0.16875,
  and \<open>isGrabbing\<close> is \<open>false\<close> throughout.
\<close>

lemma scenario_values:
  "\<not> isl (runHand 0 scenarioFrames initialState) \<and>
   map pinchDistance (fst (projr (runHand 0 scenarioFrames initialState)))
     = [0.6, 0.4, 0.225, 0.1375, 0.16875] \<and>
   map isGrabbing (fst (projr (runHand 0 scenarioFrames initialState)))
     = [False, False, False, False, False]"
proof -
  obtain gs s' where run: "runHand 0 scenarioFrames initialState = Inr (gs, s')"
    by (simp add: scenarioFrames_def processHandLandmarks_pinchHand)
  then have "map pinchDistance gs =
      [snd (snd (snd (viewStep (1 / 5) (False, None, 0, 1)))),
       snd (snd (snd (viewStep (1 / 5) (viewStep (1 / 5) (False, None, 0, 1))))),
       snd (snd (snd (viewStep (1 / 20) (viewStep (1 / 5) (viewStep (1 / 5)
         (False, None, 0, 1)))))),
       snd (snd (snd (viewStep (1 / 20) (viewStep (1 / 20) (viewStep (1 / 5) (viewStep (1 / 5)
         (False, None, 0, 1))))))),
       snd (snd (snd (viewStep (1 / 5) (viewStep (1 / 20) (viewStep (1 / 20) (viewStep (1 / 5)
         (viewStep (1 / 5) (False, None, 0, 1))))))))] \<and>
     map isGrabbing gs =
      [fst (viewStep (1 / 5) (False, None, 0, 1)),
       fst (viewStep (1 / 5) (viewStep (1 / 5) (False, None, 0, 1))),
       fst (viewStep (1 / 20) (viewStep (1 / 5) (viewStep (1 / 5) (False, None, 0, 1)))),
       fst (viewStep (1 / 20) (viewStep (1 / 20) (viewStep (1 / 5) (viewStep (1 / 5)
         (False, None, 0, 1))))),
       fst (viewStep (1 / 5) (viewStep (1 / 20) (viewStep (1 / 20) (viewStep (1 / 5)
         (viewStep (1 / 5) (False, None, 0, 1))))))]"
    by (auto simp: scenarioFrames_def processHandLandmarks_pinchHand slotGesture_view
        slotView_after slotView_initial simp del: slotGesture_fields slotAfter_same)
  then have "map pinchDistance gs = [3 / 5, 2 / 5, 9 / 40, 11 / 80, 27 / 160] \<and>
     map isGrabbing gs = [False, False, False, False, False]"
    by (simp add: view_evals)
  then show ?thesis unfolding run by simp
qed

lemma commit_rule:
  assumes "runHand i frames s = Inr (gs, s')"
    and "\<not> slotGrabbing s i" and "slotPending s i = None"
    and "k < length gs" and "\<forall>j<k. \<not> isGrabbing (gs ! j)"
  shows "isGrabbing (gs ! k) =
           (0 < k \<and> pinchDistance (gs ! (k - 1)) < PINCH_THRESHOLD \<and>
            pinchDistance (gs ! k) < PINCH_THRESHOLD)"
  using commit_from_open [OF assms(1,2), of False k] assms(3,4,5)
  by (cases k) simp_all

text \<open>
  Claim C9, as the code has it. On the raw pinch distances 0.2, 0.2, 0.05, 0.05, 0.2, from
  the initial refs, the per-hand filter returns in all five frames, and \<open>isGrabbing\<close>
  is \<open>false\<close> in each of them: no frame commits the grab.
\<close>

theorem scenario_never_grabs:
  "\<not> isl (runHand 0 scenarioFrames initialState) \<and>
   map isGrabbing (fst (projr (runHand 0 scenarioFrames initialState)))
     = [False, False, False, False, False]"
  using scenario_values by simp

text \<open>
  Claim C9, amended. The per-hand filter of hand index \<open>i\<close> runs over any sequence of
  frames, from refs in which the hand is not grabbing and has no pending candidate (as
  in the initial refs). At a frame \<open>k\<close> before which \<open>isGrabbing\<close> was never \<open>true\<close>,
  \<open>isGrabbing\<close> is \<open>true\<close> exactly if \<open>k\<close> is not the first frame and the smoothed
  samples of frames \<open>k - 1\<close> and \<open>k\<close> are both below \<open>PINCH_THRESHOLD\<close>: the grab is
  committed at the first frame that ends two consecutive smoothed samples below the
  threshold. In the scenario of the raw pinch distances 0.2, 0.2, 0.05, 0.05, 0.2 the
  smoothed samples are 0.6, 0.4, 0.225, 0.1375 and 0.16875; none is below the threshold,
  and \<open>isGrabbing\<close> stays \<open>false\<close>.
\<close>

theorem first_commit:
  "(runHand i frames s = Inr (gs, s') \<and> \<not> slotGrabbing s i \<and> slotPending s i = None \<and>
    k < length gs \<and> (\<forall>j<k. \<not> isGrabbing (gs ! j)) \<longrightarrow>
      isGrabbing (gs ! k) =
        (0 < k \<and> pinchDistance (gs ! (k - 1)) < PINCH_THRESHOLD \<and>
         pinchDistance (gs ! k) < PINCH_THRESHOLD)) \<and>
   \<not> isl (runHand 0 scenarioFrames initialState) \<and>
   map pinchDistance (fst (projr (runHand 0 scenarioFrames initialState)))
     = [0.6, 0.4, 0.225, 0.1375, 0.16875] \<and>
   map isGrabbing (fst (projr (runHand 0 scenarioFrames initialState)))
     = [False, False, False, False, False]"
  using commit_rule [of i frames s gs s' k] scenario_values by blast

text \<open>
  The theorem at six frames of a hand with closed fingers: the smoothed samples halve
  from 1/2 to 1/64, the fifth and the sixth are below the threshold, and the grab is
  committed at the sixth frame.
\<close>

theorem first_commit_witness:
  "\<not> isl (runHand 0 (closedFrames 6) initialState) \<and>
   map pinchDistance (fst (projr (runHand 0 (closedFrames 6) initialState)))
     = [1 / 2, 1 / 4, 1 / 8, 1 / 16, 1 / 32, 1 / 64] \<and>
   map isGrabbing (take 5 (fst (projr (runHand 0 (closedFrames 6) initialState))))
     = [False, False, False, False, False] \<and>
   isGrabbing (fst (projr (runHand 0 (closedFrames 6) initialState)) ! 5)"
proof -
  obtain gs s' where run: "runHand 0 (closedFrames 6) initialState = Inr (gs, s')"
    by (simp add: closedFrames_6 processHandLandmarks_pinchHand)
  then obtain g0 g1 g2 g3 g4 g5 where gs: "gs = [g0, g1, g2, g3, g4, g5]"
    by (auto simp: closedFrames_6 processHandLandmarks_pinchHand)
  from run have "map pinchDistance gs =
      [snd (snd (snd (viewStep 0 (False, None, 0, 1)))),
       snd (snd (snd (viewStep 0 (viewStep 0 (False, None, 0, 1))))),
       snd (snd (snd (viewStep 0 (viewStep 0 (viewStep 0 (False, None, 0, 1)))))),
       snd (snd (snd (viewStep 0 (viewStep 0 (viewStep 0 (viewStep 0 (False, None, 0, 1))))))),
       snd (snd (snd (viewStep 0 (viewStep 0 (viewStep 0 (viewStep 0 (viewStep 0
         (False, None, 0, 1)))))))),
       snd (snd (snd (viewStep 0 (viewStep 0 (viewStep 0 (viewStep 0 (viewStep 0 (viewStep 0
         (False, None, 0, 1)))))))))] \<and>
     map isGrabbing (take 5 gs) =
      [fst (viewStep 0 (False, None, 0, 1)),
       fst (viewStep 0 (viewStep 0 (False, None, 0, 1))),
       fst (viewStep 0 (viewStep 0 (viewStep 0 (False, None, 0, 1)))),
       fst (viewStep 0 (viewStep 0 (viewStep 0 (viewStep 0 (False, None, 0, 1))))),
       fst (viewStep 0 (viewStep 0 (viewStep 0 (viewStep 0 (viewStep 0
         (False, None, 0, 1))))))]"
    by (auto simp: closedFrames_6 processHandLandmarks_pinchHand slotGesture_view
        slotView_after slotView_initial simp del: slotGesture_fields slotAfter_same)
  then have vals: "map pinchDistance gs = [1 / 2, 1 / 4, 1 / 8, 1 / 16, 1 / 32, 1 / 64]"
    "map isGrabbing (take 5 gs) = [False, False, False, False, False]"
    by (simp_all add: view_evals)
  have before: "\<forall>j<5. \<not> isGrabbing (gs ! j)"
  proof (intro allI impI)
    fix j :: nat
    assume "j < 5"
    then consider "j = 0" | "j = 1" | "j = 2" | "j = 3" | "j = 4" by linarith
    then show "\<not> isGrabbing (gs ! j)"
      using vals(2) by cases (simp_all add: gs)
  qed
  have "isGrabbing (gs ! 5) =
     (0 < (5::nat) \<and> pinchDistance (gs ! (5 - 1)) < PINCH_THRESHOLD \<and>
      pinchDistance (gs ! 5) < PINCH_THRESHOLD)"
    using first_commit [where i = 0 and frames = "closedFrames 6" and s = initialState
        and gs = gs and s' = s' and k = 5] run before
    by (simp add: gs)
  with vals(1) have "isGrabbing (gs ! 5)"
    by (simp add: gs PINCH_THRESHOLD_def)
  with vals show ?thesis unfolding run by simp
qed

section \<open>Smoothing\<close>

text \<open>
  Claim C7 (smoothing update). For a hand whose thumb tip and index tip exist, with raw
  pinch distance \<open>d\<close> and raw centre \<open>c\<close>, both filters return, and they leave in their
  refs: as smoothed pinch distance the old one plus 0.5 times its distance to \<open>d\<close> (the
  old one being 1 for a hand index without refs), and as smoothed position the
  transformed centre itself when there was no position, else the old position plus
  0.4 times its distance to the transformed centre, in each coordinate. These are the
  values of the returned \<open>GestureState\<close>.
\<close>

theorem smoothing_update:
  assumes "calculatePinchDistance lms = Inr d" and "calculateHandCenter lms = Inr c"
    and "rawX = - (x3 c * 2 - 1)" and "rawY = - (y3 c * 2 - 1)" and "rawZ = z3 c"
  shows "(case processHandLandmarks lms i s of
            Inl e \<Rightarrow> False
          | Inr (g, s') \<Rightarrow>
              slotPinch s' i = slotPinch s i + 0.5 * (d - slotPinch s i) \<and>
              slotPosition s' i =
                Some (case slotPosition s i of
                        None \<Rightarrow> \<lparr>x3 = rawX, y3 = rawY, z3 = rawZ\<rparr>
                      | Some p \<Rightarrow> \<lparr>x3 = x3 p + 0.4 * (rawX - x3 p),
                                   y3 = y3 p + 0.4 * (rawY - y3 p),
                                   z3 = z3 p + 0.4 * (rawZ - z3 p)\<rparr>) \<and>
              pinchDistance g = slotPinch s' i \<and> handPosition g = slotPosition s' i) \<and>
         (case processLandmarks lms s of
            Inl e \<Rightarrow> False
          | Inr s' \<Rightarrow>
              smoothedPinchRef s' = smoothedPinchRef s + 0.5 * (d - smoothedPinchRef s) \<and>
              smoothedPositionRef s' =
                Some (case smoothedPositionRef s of
                        None \<Rightarrow> \<lparr>x3 = rawX, y3 = rawY, z3 = rawZ\<rparr>
                      | Some p \<Rightarrow> \<lparr>x3 = x3 p + 0.4 * (rawX - x3 p),
                                   y3 = y3 p + 0.4 * (rawY - y3 p),
                                   z3 = z3 p + 0.4 * (rawZ - z3 p)\<rparr>) \<and>
              pinchDistance (gesture s') = smoothedPinchRef s' \<and>
              handPosition (gesture s') = smoothedPositionRef s')"
  using assms
  by (simp add: processHandLandmarks_Inr processLandmarks_Inr smoothPinch_def smoothPosition_def
      PINCH_SMOOTHING_def POSITION_SMOOTHING_def split: option.splits)

lemma slotPosition_closedState_4:
  "slotPosition (closedState 4) 0 = Some \<lparr>x3 = 0, y3 = 0, z3 = 0\<rparr>"
proof -
  have "closedFrames 4 = [pinchHand 0, pinchHand 0, pinchHand 0, pinchHand 0]"
    by (simp add: closedFrames_def numeral_eq_Suc)
  then show ?thesis
    by (simp add: closedState_def processHandLandmarks_pinchHand smoothPosition_def)
qed

text \<open>
  The theorem at the first frame of a hand (the position is seeded with the transformed
  centre \<open>(-0.2, 0, 0)\<close>, the pinch distance goes from 1 to 0.6) and at a frame after
  four frames with closed fingers (position from \<open>(0, 0, 0)\<close> to \<open>(-0.08, 0, 0)\<close>, pinch
  distance from 1/16 to 0.13125).
\<close>

theorem smoothing_update_witness:
  "(case processHandLandmarks (pinchHand 0.2) 0 initialState of
      Inl e \<Rightarrow> False
    | Inr (g, s') \<Rightarrow>
        slotPinch s' 0 = 0.6 \<and> slotPosition s' 0 = Some \<lparr>x3 = - 0.2, y3 = 0, z3 = 0\<rparr>) \<and>
   (case processHandLandmarks (pinchHand 0.2) 0 (closedState 4) of
      Inl e \<Rightarrow> False
    | Inr (g, s') \<Rightarrow>
        slotPinch s' 0 = 0.13125 \<and> slotPosition s' 0 = Some \<lparr>x3 = - 0.08, y3 = 0, z3 = 0\<rparr>)"
proof -
  have p: "slotPinch (closedState 4) 0 = 1 / 16"
    using closedState_4_view by (simp add: slotView_def)
  show ?thesis
    using smoothing_update [where lms = "pinchHand 0.2" and i = 0 and s = initialState,
        OF pinchHand_geometry(1,2) refl refl refl]
      smoothing_update [where lms = "pinchHand 0.2" and i = 0 and s = "closedState 4",
        OF pinchHand_geometry(1,2) refl refl refl]
    by (simp add: p slotPosition_closedState_4 processHandLandmarks_pinchHand
        del: slotAfter_same slotGesture_fields)
qed

section \<open>The pull gate\<close>

lemma pullGate_aggregated: "pullGate (fst (processTwoHandGesture h0 h1 l0 l1 s))"
  by (simp add: pullGate_def processTwoHandGesture_def distance2D_def MIN_PULL_DISTANCE_def
      power2_eq_square Let_def split: option.splits prod.splits)

lemma pullGate_none: "pullGate noTwoHandGesture"
  by (simp add: pullGate_def noTwoHandGesture_def)

lemma handLoop_twoHandGesture:
  "twoHandGesture (snd (handLoop hands mh i hg hl s)) = twoHandGesture s"
proof (induction hands arbitrary: i hg hl s)
  case Nil
  then show ?case by simp
next
  case (Cons h hands)
  show ?case
  proof (cases "processHandLandmarks h i s")
    case (Inl e)
    then show ?thesis by simp
  next
    case (Inr r)
    then obtain g s1 where r: "processHandLandmarks h i s = Inr (g, s1)"
      by (cases r) simp
    then obtain d c where s1: "s1 = slotAfter d c i s"
      by (rule processHandLandmarks_cases)
    show ?thesis
      using Cons.IH [of "i + 1" "hg @ [g]" "hl @ [handednessAt mh i]" s1]
      by (auto simp: r s1 split: sum.splits)
  qed
qed

lemma processLandmarks_twoHandGesture:
  assumes "processLandmarks lms s = Inr s'"
  shows "twoHandGesture s' = twoHandGesture s"
  using assms by (rule processLandmarks_cases) simp

lemma onResults_pullGate:
  assumes "pullGate (twoHandGesture s)"
  shows "pullGate (twoHandGesture (snd (onResults c r s)))"
proof (cases "c \<and> (\<exists>h hs. multiHandLandmarks r = Some (h # hs))")
  case False
  then consider "\<not> c" | "c" "multiHandLandmarks r = None \<or> multiHandLandmarks r = Some []"
    by (cases "multiHandLandmarks r"; cases "the (multiHandLandmarks r)") auto
  then show ?thesis
  proof cases
    case 1
    with assms show ?thesis by simp
  next
    case 2
    then show ?thesis by (simp add: onResults_no_hands pullGate_none)
  qed
next
  case True
  then obtain h hs where c: "c" and r: "multiHandLandmarks r = Some (h # hs)" by blast
  show ?thesis
  proof (cases "processLandmarks h s")
    case (Inl e)
    with assms c r show ?thesis by (simp add: onResults_def)
  next
    case (Inr s1)
    note s1 = processLandmarks_twoHandGesture [OF Inr]
    obtain res s2 where hl: "handLoop (h # hs) (multiHandedness r) 0 [] [] s1 = (res, s2)"
      by (cases "handLoop (h # hs) (multiHandedness r) 0 [] [] s1") 
    have s2: "twoHandGesture s2 = twoHandGesture s"
      using handLoop_twoHandGesture [of "h # hs" "multiHandedness r" 0 "[]" "[]" s1] hl s1
      by simp
    show ?thesis
      using assms c r Inr hl s1 s2
      by (simp add: onResults_def pullGate_aggregated split: sum.splits prod.splits)
  qed
qed

lemma runFrames_pullGate:
  assumes "pullGate (twoHandGesture s)"
  shows "pullGate (twoHandGesture (runFrames c frames s))"
  using assms
  by (induction frames arbitrary: s) (simp_all add: onResults_pullGate)

text \<open>
  Claim C5 (pull gate). The \<open>TwoHandGestureState\<close> that the aggregator computes from
  any two hands and labels satisfies the pull gate: \<open>pullDistance\<close> is the distance of
  the left and right positions in the \<open>(x, y)\<close> plane, or 0 when a hand or a position is
  missing, and \<open>isPulling\<close> holds exactly when both hands are assigned, both are
  grabbing and \<open>pullDistance\<close> exceeds 0.15. So does the \<open>TwoHandGestureState\<close> that
  the hook holds after any sequence of frames from the initial state.
\<close>

theorem pull_gate:
  "pullGate (fst (processTwoHandGesture hand0 hand1 handedness0 handedness1 s)) \<and>
   pullGate (twoHandGesture (runFrames ctxReady frames initialState))"
  by (simp add: pullGate_aggregated runFrames_pullGate pullGate_none)

text \<open>
  The pull gate at two grabbing hands labelled left and right: one unit apart they pull, at
  distance 0.1 they do not.
\<close>

theorem pull_gate_witness:
  "isPulling (fst (processTwoHandGesture (Some (grabbingAt (- (1 / 2)))) (Some (grabbingAt (1 / 2)))
      (Some ''Left'') (Some ''Right'') initialState)) \<and>
   pullDistance (fst (processTwoHandGesture (Some (grabbingAt (- (1 / 2)))) (Some (grabbingAt (1 / 2)))
      (Some ''Left'') (Some ''Right'') initialState)) = 1 \<and>
   \<not> isPulling (fst (processTwoHandGesture (Some (grabbingAt 0)) (Some (grabbingAt 0.1))
      (Some ''Left'') (Some ''Right'') initialState))"
proof -
  have roles: "leftHand (fst (processTwoHandGesture (Some h0) (Some h1)
      (Some ''Left'') (Some ''Right'') initialState)) = Some h0"
    "rightHand (fst (processTwoHandGesture (Some h0) (Some h1)
      (Some ''Left'') (Some ''Right'') initialState)) = Some h1" for h0 h1
    by (simp_all add: processTwoHandGesture_def Let_def split: prod.splits)
  show ?thesis
    using pull_gate [of "Some (grabbingAt (- (1 / 2)))" "Some (grabbingAt (1 / 2))"
        "Some ''Left''" "Some ''Right''" initialState True "[]"]
      pull_gate [of "Some (grabbingAt 0)" "Some (grabbingAt 0.1)"
        "Some ''Left''" "Some ''Right''" initialState True "[]"]
    by (simp add: pullGate_def roles grabbingAt_def distance2D_def)
qed

section \<open>Role assignment\<close>

text \<open>
  Claim C10 (same label on both hands). When both hands are present and carry the same
  label, "Left" or "Right", the second hand takes that role and the other role is
  \<open>null\<close>; the first hand is in neither role (unless its \<open>GestureState\<close> has the very
  values of the second hand's), and \<open>bothPinching\<close> and \<open>isPulling\<close> are \<open>false\<close>
  whatever the pinch states of the hands are.
\<close>

theorem same_label_overwrites:
  assumes "label = ''Left'' \<or> label = ''Right''"
    and "t = fst (processTwoHandGesture (Some hand0) (Some hand1) (Some label) (Some label) s)"
  shows "(if label = ''Left'' then leftHand t = Some hand1 \<and> rightHand t = None
          else rightHand t = Some hand1 \<and> leftHand t = None) \<and>
         (hand0 \<noteq> hand1 \<longrightarrow> leftHand t \<noteq> Some hand0 \<and> rightHand t \<noteq> Some hand0) \<and>
         \<not> bothPinching t \<and> \<not> isPulling t \<and> pullDistance t = 0 \<and> centerPosition t = None"
  using assms
  by (auto simp: processTwoHandGesture_def Let_def)

text \<open>
  The theorem at two grabbing hands one unit apart, both labelled "Left": the second is
  the left hand, there is no right hand, and nothing is pulled.
\<close>

theorem same_label_overwrites_witness:
  "leftHand (fst (processTwoHandGesture (Some (grabbingAt (- (1 / 2)))) (Some (grabbingAt (1 / 2)))
      (Some ''Left'') (Some ''Left'') initialState)) = Some (grabbingAt (1 / 2)) \<and>
   rightHand (fst (processTwoHandGesture (Some (grabbingAt (- (1 / 2)))) (Some (grabbingAt (1 / 2)))
      (Some ''Left'') (Some ''Left'') initialState)) = None \<and>
   \<not> bothPinching (fst (processTwoHandGesture (Some (grabbingAt (- (1 / 2))))
      (Some (grabbingAt (1 / 2))) (Some ''Left'') (Some ''Left'') initialState)) \<and>
   \<not> isPulling (fst (processTwoHandGesture (Some (grabbingAt (- (1 / 2))))
      (Some (grabbingAt (1 / 2))) (Some ''Left'') (Some ''Left'') initialState))"
  using same_label_overwrites [of "''Left''" _ "grabbingAt (- (1 / 2))" "grabbingAt (1 / 2)"
      initialState, OF _ refl]
  by simp

section \<open>The coordinate convention\<close>

lemma center_in_range:
  assumes "list_all landmarkInRange lms" and "calculateHandCenter lms = Inr c"
  shows "0 \<le> x3 c \<and> x3 c \<le> 1 \<and> 0 \<le> y3 c \<and> y3 c \<le> 1"
proof -
  from assms(2) have len: "THUMB_TIP < length lms" "INDEX_TIP < length lms"
    by (auto simp: calculateHandCenter_def landmarkAt_def split: if_splits option.splits)
  with assms(1) have "landmarkInRange (lms ! THUMB_TIP)" "landmarkInRange (lms ! INDEX_TIP)"
    by (simp_all add: list_all_length)
  with assms(2) len show ?thesis
    by (auto simp: calculateHandCenter_def landmarkAt_def landmarkInRange_def)
qed

lemma smooth_in_box:
  assumes "positionInBox p" and "0 \<le> x3 c \<and> x3 c \<le> 1 \<and> 0 \<le> y3 c \<and> y3 c \<le> 1"
  shows "inBox (smoothPosition p (- (x3 c * 2 - 1)) (- (y3 c * 2 - 1)) (z3 c))"
proof (cases p)
  case None
  with assms(2) show ?thesis
    by (simp add: inBox_def smoothPosition_def)
next
  case (Some q)
  with assms(1) have q: "- 1 \<le> x3 q" "x3 q \<le> 1" "- 1 \<le> y3 q" "y3 q \<le> 1"
    by (simp_all add: positionInBox_def inBox_def)
  have "- 1 \<le> a + 0.4 * (- (b * 2 - 1) - a) \<and> a + 0.4 * (- (b * 2 - 1) - a) \<le> 1"
    if "- 1 \<le> a" "a \<le> 1" "0 \<le> b" "b \<le> 1" for a b :: real
    using that by (simp add: field_simps)
  from this [of "x3 q" "x3 c"] this [of "y3 q" "y3 c"] q assms(2) Some show ?thesis
    by (simp add: inBox_def smoothPosition_def POSITION_SMOOTHING_def)
qed

lemma processLandmarks_in_box:
  assumes "processLandmarks lms s = Inr s'" and "stateInBox s" and "list_all landmarkInRange lms"
  shows "stateInBox s'"
proof -
  from assms(1) obtain d c where c: "calculateHandCenter lms = Inr c"
    and s': "s' = singleAfter d c s"
    by (rule processLandmarks_cases)
  from assms(2) have "positionInBox (smoothedPositionRef s)" by (simp add: stateInBox_def)
  from smooth_in_box [OF this center_in_range [OF assms(3) c]] assms(2)
  show ?thesis
    by (simp add: s' stateInBox_def emittedInBox_def positionInBox_def)
qed

lemma processHandLandmarks_in_box:
  assumes "processHandLandmarks lms i s = Inr (g, s')" and "stateInBox s"
    and "list_all landmarkInRange lms"
  shows "stateInBox s' \<and> positionInBox (handPosition g)"
proof -
  from assms(1) obtain d c where c: "calculateHandCenter lms = Inr c"
    and g: "g = slotGesture d c i s" and s': "s' = slotAfter d c i s"
    by (rule processHandLandmarks_cases)
  from assms(2) have "positionInBox (slotPosition s i)" by (simp add: stateInBox_def)
  from smooth_in_box [OF this center_in_range [OF assms(3) c]]
  have box: "positionInBox (handPosition g)" by (simp add: g positionInBox_def)
  have "positionInBox (slotPosition s' j)" for j
  proof (cases "j = i")
    case True
    with box show ?thesis by (simp add: s' g)
  next
    case False
    with assms(2) show ?thesis by (simp add: s' stateInBox_def)
  qed
  with assms(2) box show ?thesis
    by (simp add: stateInBox_def emittedInBox_def s')
qed

lemma handLoop_in_box:
  assumes "stateInBox s" and "list_all (list_all landmarkInRange) hands"
    and "list_all (\<lambda>g. positionInBox (handPosition g)) hg"
  shows "stateInBox (snd (handLoop hands mh i hg hl s)) \<and>
         (case fst (handLoop hands mh i hg hl s) of
            Inl e \<Rightarrow> True
          | Inr (hg', hl') \<Rightarrow> list_all (\<lambda>g. positionInBox (handPosition g)) hg')"
  using assms
proof (induction hands arbitrary: i hg hl s)
  case Nil
  then show ?case by simp
next
  case (Cons h hands)
  show ?case
  proof (cases "processHandLandmarks h i s")
    case (Inl e)
    with Cons.prems show ?thesis by simp
  next
    case (Inr r)
    then obtain g s1 where r: "processHandLandmarks h i s = Inr (g, s1)"
      by (cases r) simp
    from Cons.prems(2) have h: "list_all landmarkInRange h"
      and hs: "list_all (list_all landmarkInRange) hands"
      by simp_all
    from processHandLandmarks_in_box [OF r Cons.prems(1) h]
    have s1: "stateInBox s1" and g: "positionInBox (handPosition g)" by simp_all
    from Cons.prems(3) g
    have hg: "list_all (\<lambda>g. positionInBox (handPosition g)) (hg @ [g])" by simp
    from Cons.IH [OF s1 hs hg, of "i + 1" "hl @ [handednessAt mh i]"] s1
    show ?thesis
      by (auto simp: r split: sum.splits)
  qed
qed

lemma elemAt_in_box:
  assumes "list_all (\<lambda>g. positionInBox (handPosition g)) hg"
  shows "handInBox (elemAt hg n)"
  using assms by (simp add: elemAt_def handInBox_def list_all_length)

lemma roles_in_box:
  assumes "handInBox h0" and "handInBox h1"
  shows "handInBox (leftHand (fst (processTwoHandGesture h0 h1 l0 l1 s))) \<and>
         handInBox (rightHand (fst (processTwoHandGesture h0 h1 l0 l1 s)))"
  using assms
  by (auto simp: processTwoHandGesture_def Let_def handInBox_def split: option.splits)

lemma aggregated_in_box:
  assumes "stateInBox s" and "handInBox h0" and "handInBox h1"
  shows "stateInBox (snd (processTwoHandGesture h0 h1 l0 l1 s))"
  using assms(1) roles_in_box [OF assms(2,3), of l0 l1 s]
  by (simp add: stateInBox_def emittedInBox_def)

lemma reset_in_box:
  assumes "stateInBox s"
  shows "stateInBox (resetNoHands s)"
  using assms
  by (simp add: stateInBox_def emittedInBox_def positionInBox_def handInBox_def
      noHandGesture_def noTwoHandGesture_def)

lemma onResults_in_box:
  assumes "stateInBox s" and "frameInRange r"
  shows "stateInBox (snd (onResults c r s))"
proof (cases "c \<and> (\<exists>h hs. multiHandLandmarks r = Some (h # hs))")
  case False
  then consider "\<not> c" | "c" "multiHandLandmarks r = None \<or> multiHandLandmarks r = Some []"
    by (cases "multiHandLandmarks r"; cases "the (multiHandLandmarks r)") auto
  then show ?thesis
  proof cases
    case 1
    with assms show ?thesis by simp
  next
    case 2
    with assms show ?thesis by (simp add: onResults_no_hands reset_in_box)
  qed
next
  case True
  then obtain h hs where c: "c" and r: "multiHandLandmarks r = Some (h # hs)" by blast
  from assms(2) r have hands: "list_all (list_all landmarkInRange) (h # hs)"
    by (simp add: frameInRange_def)
  then have h: "list_all landmarkInRange h" by simp
  show ?thesis
  proof (cases "processLandmarks h s")
    case (Inl e)
    with assms c r show ?thesis by (simp add: onResults_def)
  next
    case (Inr s1)
    note s1 = processLandmarks_in_box [OF Inr assms(1) h]
    obtain res s2 where hl: "handLoop (h # hs) (multiHandedness r) 0 [] [] s1 = (res, s2)"
      by (cases "handLoop (h # hs) (multiHandedness r) 0 [] [] s1")
    from handLoop_in_box [OF s1 hands, of "[]" "multiHandedness r" 0 "[]"] hl
    have s2: "stateInBox s2"
      and res: "case res of Inl e \<Rightarrow> True
                | Inr (hg', hl') \<Rightarrow> list_all (\<lambda>g. positionInBox (handPosition g)) hg'"
      by simp_all
    show ?thesis
    proof (cases res)
      case (Inl e)
      with c r \<open>processLandmarks h s = Inr s1\<close> hl s1 s2 show ?thesis
        by (simp add: onResults_def split: sum.splits del: handLoop.simps)
    next
      case (Inr p)
      then obtain hg' hl' where p: "res = Inr (hg', hl')" by (cases p) simp
      with res have "list_all (\<lambda>g. positionInBox (handPosition g)) hg'" by simp
      then have "handInBox (elemAt hg' 0)" "handInBox (elemAt hg' 1)"
        by (rule elemAt_in_box)+
      from aggregated_in_box [OF s2 this] c r \<open>processLandmarks h s = Inr s1\<close> hl p s1
      show ?thesis
        by (simp add: onResults_def split: sum.splits del: handLoop.simps)
    qed
  qed
qed

lemma initial_in_box: "stateInBox initialState"
  by (simp add: stateInBox_def emittedInBox_def positionInBox_def handInBox_def
      noHandGesture_def noTwoHandGesture_def)

lemma runFrames_in_box:
  assumes "stateInBox s" and "list_all frameInRange frames"
  shows "stateInBox (runFrames c frames s)"
  using assms
  by (induction frames arbitrary: s) (simp_all add: onResults_in_box)

lemma frameInRange_pinchHand:
  assumes "- (1 / 2) \<le> d" and "d \<le> 1 / 2"
  shows "frameInRange (oneHandFrame (pinchHand d))"
  using assms
  by (simp add: frameInRange_def oneHandFrame_def pinchHand_def handWith_def lm_def
      landmarkInRange_def list_all_iff)

lemma frameInRange_noHands: "frameInRange noHandsFrame"
  by (simp add: frameInRange_def noHandsFrame_def)

lemma smoothPosition_None: "smoothPosition None a b c = \<lparr>x3 = a, y3 = b, z3 = c\<rparr>"
  by (simp add: smoothPosition_def)

text \<open>
  Claim C8 (coordinate contract). For a hand with thumb tip and index tip, the position
  that enters the smoothing of the per-hand filter is the midpoint of the two tips with
  \<open>x\<close> and \<open>y\<close> mapped to \<open>-(2x - 1)\<close> and \<open>-(2y - 1)\<close> and \<open>z\<close> unchanged; on the
  first frame of a hand index it is the emitted position itself. And after any sequence
  of frames whose landmarks all have \<open>x\<close> and \<open>y\<close> in \<open>[0, 1]\<close>, from the initial
  state, every position the hook shows (that of the single-hand \<open>GestureState\<close> and
  those of the left and the right hand) is \<open>null\<close> or has \<open>x\<close> and \<open>y\<close> in
  \<open>[-1, 1]\<close>.
\<close>

theorem coordinate_contract:
  "(INDEX_TIP < length lms \<longrightarrow>
      (case processHandLandmarks lms i s of
         Inl e \<Rightarrow> False
       | Inr (g, s') \<Rightarrow>
           handPosition g =
             Some (smoothPosition (slotPosition s i)
                (- (2 * ((lm_x (lms ! THUMB_TIP) + lm_x (lms ! INDEX_TIP)) / 2) - 1))
                (- (2 * ((lm_y (lms ! THUMB_TIP) + lm_y (lms ! INDEX_TIP)) / 2) - 1))
                ((lm_z (lms ! THUMB_TIP) + lm_z (lms ! INDEX_TIP)) / 2)) \<and>
           (slotPosition s i = None \<longrightarrow>
              handPosition g =
                Some \<lparr>x3 = - (2 * ((lm_x (lms ! THUMB_TIP) + lm_x (lms ! INDEX_TIP)) / 2) - 1),
                      y3 = - (2 * ((lm_y (lms ! THUMB_TIP) + lm_y (lms ! INDEX_TIP)) / 2) - 1),
                      z3 = (lm_z (lms ! THUMB_TIP) + lm_z (lms ! INDEX_TIP)) / 2\<rparr>))) \<and>
   (list_all frameInRange frames \<longrightarrow> emittedInBox (runFrames ctxReady frames initialState))"
proof (intro conjI impI)
  assume len: "INDEX_TIP < length lms"
  then have c: "calculateHandCenter lms =
      Inr \<lparr>x3 = (lm_x (lms ! THUMB_TIP) + lm_x (lms ! INDEX_TIP)) / 2,
           y3 = (lm_y (lms ! THUMB_TIP) + lm_y (lms ! INDEX_TIP)) / 2,
           z3 = (lm_z (lms ! THUMB_TIP) + lm_z (lms ! INDEX_TIP)) / 2\<rparr>"
    by (simp add: calculateHandCenter_def landmarkAt_def THUMB_TIP_def INDEX_TIP_def)
  from len obtain d where d: "calculatePinchDistance lms = Inr d"
    using geometry_defined by blast
  show "case processHandLandmarks lms i s of
         Inl e \<Rightarrow> False
       | Inr (g, s') \<Rightarrow>
           handPosition g =
             Some (smoothPosition (slotPosition s i)
                (- (2 * ((lm_x (lms ! THUMB_TIP) + lm_x (lms ! INDEX_TIP)) / 2) - 1))
                (- (2 * ((lm_y (lms ! THUMB_TIP) + lm_y (lms ! INDEX_TIP)) / 2) - 1))
                ((lm_z (lms ! THUMB_TIP) + lm_z (lms ! INDEX_TIP)) / 2)) \<and>
           (slotPosition s i = None \<longrightarrow>
              handPosition g =
                Some \<lparr>x3 = - (2 * ((lm_x (lms ! THUMB_TIP) + lm_x (lms ! INDEX_TIP)) / 2) - 1),
                      y3 = - (2 * ((lm_y (lms ! THUMB_TIP) + lm_y (lms ! INDEX_TIP)) / 2) - 1),
                      z3 = (lm_z (lms ! THUMB_TIP) + lm_z (lms ! INDEX_TIP)) / 2\<rparr>)"
    by (simp add: processHandLandmarks_Inr [OF d c] smoothPosition_None mult.commute)
next
  assume "list_all frameInRange frames"
  from runFrames_in_box [OF initial_in_box this]
  show "emittedInBox (runFrames ctxReady frames initialState)"
    by (simp add: stateInBox_def)
qed

text \<open>
  The theorem at the first frame of a hand with the tips at \<open>(0.5, 0.5, 0)\<close> and
  \<open>(0.7, 0.5, 0)\<close>, whose midpoint \<open>(0.6, 0.5, 0)\<close> is emitted as \<open>(-0.2, 0, 0)\<close>, and
  at the three frames of this hand, no hand, and a hand with closed fingers.
\<close>

theorem coordinate_contract_witness:
  "INDEX_TIP < length (pinchHand 0.2) \<and>
   \<not> isl (processHandLandmarks (pinchHand 0.2) 0 initialState) \<and>
   handPosition (fst (projr (processHandLandmarks (pinchHand 0.2) 0 initialState)))
     = Some \<lparr>x3 = - 0.2, y3 = 0, z3 = 0\<rparr> \<and>
   list_all frameInRange [oneHandFrame (pinchHand 0.2), noHandsFrame, oneHandFrame (pinchHand 0)] \<and>
   emittedInBox (runFrames True
     [oneHandFrame (pinchHand 0.2), noHandsFrame, oneHandFrame (pinchHand 0)] initialState)"
proof -
  have len: "INDEX_TIP < length (pinchHand 0.2)"
    by (simp add: pinchHand_def INDEX_TIP_def)
  have tips: "pinchHand 0.2 ! THUMB_TIP = lm (1 / 2) (1 / 2) 0"
    "pinchHand 0.2 ! INDEX_TIP = lm (1 / 2 + 0.2) (1 / 2) 0"
    using landmarkAt_handWith [of "lm (1 / 2) (1 / 2) 0" "lm (1 / 2 + 0.2) (1 / 2) 0"]
    by (simp_all add: landmarkAt_def pinchHand_def split: if_splits)
  have frames: "list_all frameInRange
      [oneHandFrame (pinchHand 0.2), noHandsFrame, oneHandFrame (pinchHand 0)]"
    by (simp add: frameInRange_pinchHand frameInRange_noHands)
  from coordinate_contract [where lms = "pinchHand 0.2" and i = 0 and s = initialState
      and frames = "[oneHandFrame (pinchHand 0.2), noHandsFrame, oneHandFrame (pinchHand 0)]"
      and ctxReady = True] len frames
  have "(case processHandLandmarks (pinchHand 0.2) 0 initialState of
         Inl e \<Rightarrow> False
       | Inr (g, s') \<Rightarrow> handPosition g = Some \<lparr>x3 = - 0.2, y3 = 0, z3 = 0\<rparr>) \<and>
     emittedInBox (runFrames True
       [oneHandFrame (pinchHand 0.2), noHandsFrame, oneHandFrame (pinchHand 0)] initialState)"
    by (simp add: tips lm_def processHandLandmarks_pinchHand smoothPosition_None
        del: runFrames_Cons)
  with len frames show ?thesis
    by (simp add: processHandLandmarks_pinchHand del: runFrames_Cons slotGesture_fields)
qed

section \<open>Frames with one hand and frames with none\<close>

lemma onResults_pinchHand:
  "onResults True (oneHandFrame (pinchHand d)) s =
     (None, snd (processTwoHandGesture
        (Some (slotGesture \<bar>d\<bar> \<lparr>x3 = (1 + d) / 2, y3 = 1 / 2, z3 = 0\<rparr> 0 s)) None None None
        (slotAfter \<bar>d\<bar> \<lparr>x3 = (1 + d) / 2, y3 = 1 / 2, z3 = 0\<rparr> 0
           (singleAfter \<bar>d\<bar> \<lparr>x3 = (1 + d) / 2, y3 = 1 / 2, z3 = 0\<rparr> s))))"
  by (rule onResults_one_hand) (rule pinchHand_geometry)+

lemma one_hand_roles:
  assumes "handPosition g \<noteq> None"
  shows "leftHand (fst (processTwoHandGesture (Some g) None None None s)) = Some g"
    and "rightHand (fst (processTwoHandGesture (Some g) None None None s)) = None"
  using assms by (auto simp: processTwoHandGesture_def Let_def)

lemma debounce_view:
  "fst (singleDebounce d s) = fst (viewStep d (singleView s))"
  "smoothPinch (smoothedPinchRef s) d = snd (snd (snd (viewStep d (singleView s))))"
  "fst (slotDebounce d i s) = fst (viewStep d (slotView s i))"
  "smoothPinch (slotPinch s i) d = snd (snd (snd (viewStep d (slotView s i))))"
  by (simp_all add: singleView_def singleDebounce_def slotView_def slotDebounce_def
      split: prod.splits)

lemma pinchHand_frame:
  "singleView (snd (onResults True (oneHandFrame (pinchHand d)) s)) = viewStep \<bar>d\<bar> (singleView s)"
  "slotView (snd (onResults True (oneHandFrame (pinchHand d)) s)) 0 = viewStep \<bar>d\<bar> (slotView s 0)"
  "smoothedPositionRef (snd (onResults True (oneHandFrame (pinchHand d)) s)) =
     Some (smoothPosition (smoothedPositionRef s) (- d) 0 0)"
  "slotPosition (snd (onResults True (oneHandFrame (pinchHand d)) s)) 0 =
     Some (smoothPosition (slotPosition s 0) (- d) 0 0)"
  "gesture (snd (onResults True (oneHandFrame (pinchHand d)) s)) =
     \<lparr>isGrabbing = fst (viewStep \<bar>d\<bar> (singleView s)),
      handPosition = Some (smoothPosition (smoothedPositionRef s) (- d) 0 0),
      pinchDistance = snd (snd (snd (viewStep \<bar>d\<bar> (singleView s)))),
      confidence = 1\<rparr>"
  "leftHand (twoHandGesture (snd (onResults True (oneHandFrame (pinchHand d)) s))) =
     Some \<lparr>isGrabbing = fst (viewStep \<bar>d\<bar> (slotView s 0)),
           handPosition = Some (smoothPosition (slotPosition s 0) (- d) 0 0),
           pinchDistance = snd (snd (snd (viewStep \<bar>d\<bar> (slotView s 0)))),
           confidence = 1\<rparr>"
proof -
  let ?c = "\<lparr>x3 = (1 + d) / 2, y3 = 1 / 2, z3 = 0\<rparr>"
  have x: "1 - (2 + d * 2) / 2 = - d" by (simp add: field_simps)
  show "singleView (snd (onResults True (oneHandFrame (pinchHand d)) s)) = viewStep \<bar>d\<bar> (singleView s)"
    by (simp only: onResults_pinchHand snd_conv singleView_aggregated singleView_slotAfter
        singleView_after)
  show "slotView (snd (onResults True (oneHandFrame (pinchHand d)) s)) 0 = viewStep \<bar>d\<bar> (slotView s 0)"
    by (simp only: onResults_pinchHand snd_conv slotView_aggregated slotView_after
        slotView_singleAfter)
  show "smoothedPositionRef (snd (onResults True (oneHandFrame (pinchHand d)) s)) =
     Some (smoothPosition (smoothedPositionRef s) (- d) 0 0)"
    by (simp add: onResults_pinchHand x)
  show "slotPosition (snd (onResults True (oneHandFrame (pinchHand d)) s)) 0 =
     Some (smoothPosition (slotPosition s 0) (- d) 0 0)"
    by (simp add: onResults_pinchHand x)
  have "gesture (snd (onResults True (oneHandFrame (pinchHand d)) s)) = singleGesture \<bar>d\<bar> ?c s"
    by (simp add: onResults_pinchHand)
  then show "gesture (snd (onResults True (oneHandFrame (pinchHand d)) s)) =
     \<lparr>isGrabbing = fst (viewStep \<bar>d\<bar> (singleView s)),
      handPosition = Some (smoothPosition (smoothedPositionRef s) (- d) 0 0),
      pinchDistance = snd (snd (snd (viewStep \<bar>d\<bar> (singleView s)))),
      confidence = 1\<rparr>"
    by (simp add: singleGesture_def debounce_view x)
  have "leftHand (twoHandGesture (snd (onResults True (oneHandFrame (pinchHand d)) s))) =
      Some (slotGesture \<bar>d\<bar> ?c 0 s)"
    by (simp add: onResults_pinchHand one_hand_roles)
  then show "leftHand (twoHandGesture (snd (onResults True (oneHandFrame (pinchHand d)) s))) =
     Some \<lparr>isGrabbing = fst (viewStep \<bar>d\<bar> (slotView s 0)),
           handPosition = Some (smoothPosition (slotPosition s 0) (- d) 0 0),
           pinchDistance = snd (snd (snd (viewStep \<bar>d\<bar> (slotView s 0)))),
           confidence = 1\<rparr>"
    by (simp add: slotGesture_def debounce_view x)
qed

lemma noHands_frame:
  "singleView (snd (onResults True noHandsFrame s)) = (False, snd (singleView s))"
  "slotView (snd (onResults True noHandsFrame s)) i = (False, None, 0, 1)"
  "smoothedPositionRef (snd (onResults True noHandsFrame s)) = smoothedPositionRef s"
  "slotPosition (snd (onResults True noHandsFrame s)) i = None"
  by (simp_all add: singleView_reset slotView_reset)

lemma smoothPosition_origin:
  "smoothPosition (Some \<lparr>x3 = 0, y3 = 0, z3 = 0\<rparr>) 0 0 0 = \<lparr>x3 = 0, y3 = 0, z3 = 0\<rparr>"
  "smoothPosition None 0 0 0 = \<lparr>x3 = 0, y3 = 0, z3 = 0\<rparr>"
  by (simp_all add: smoothPosition_def)

lemma closedHandFrames_5:
  "closedHandFrames 5 = [oneHandFrame (pinchHand 0), oneHandFrame (pinchHand 0),
     oneHandFrame (pinchHand 0), oneHandFrame (pinchHand 0), oneHandFrame (pinchHand 0)]"
  by (simp add: closedHandFrames_def numeral_eq_Suc)

lemma after_closedHandFrames_5:
  "singleView (runFrames True (closedHandFrames 5) initialState) = (False, Some True, 1, 1 / 32)"
  "slotView (runFrames True (closedHandFrames 5) initialState) 0 = (False, Some True, 1, 1 / 32)"
  "smoothedPositionRef (runFrames True (closedHandFrames 5) initialState)
     = Some \<lparr>x3 = 0, y3 = 0, z3 = 0\<rparr>"
proof -
  have "singleView (runFrames True (closedHandFrames 5) initialState) =
     viewStep 0 (viewStep 0 (viewStep 0 (viewStep 0 (viewStep 0 (False, None, 0, 1)))))"
    by (simp add: closedHandFrames_5 pinchHand_frame singleView_initial)
  then show "singleView (runFrames True (closedHandFrames 5) initialState)
      = (False, Some True, 1, 1 / 32)"
    by (simp add: view_evals)
  have "slotView (runFrames True (closedHandFrames 5) initialState) 0 =
     viewStep 0 (viewStep 0 (viewStep 0 (viewStep 0 (viewStep 0 (False, None, 0, 1)))))"
    by (simp add: closedHandFrames_5 pinchHand_frame slotView_initial)
  then show "slotView (runFrames True (closedHandFrames 5) initialState) 0
      = (False, Some True, 1, 1 / 32)"
    by (simp add: view_evals)
  show "smoothedPositionRef (runFrames True (closedHandFrames 5) initialState)
     = Some \<lparr>x3 = 0, y3 = 0, z3 = 0\<rparr>"
    by (simp add: closedHandFrames_5 pinchHand_frame smoothPosition_origin)
qed

section \<open>The single-hand filter and slot 0 between resets\<close>

lemma handLoop_keeps_slot_0:
  assumes "0 < i"
  shows "slotView (snd (handLoop hands mh i hg hl s)) 0 = slotView s 0 \<and>
         slotPosition (snd (handLoop hands mh i hg hl s)) 0 = slotPosition s 0 \<and>
         singleView (snd (handLoop hands mh i hg hl s)) = singleView s \<and>
         smoothedPositionRef (snd (handLoop hands mh i hg hl s)) = smoothedPositionRef s \<and>
         gesture (snd (handLoop hands mh i hg hl s)) = gesture s"
  using assms
proof (induction hands arbitrary: i hg hl s)
  case Nil
  then show ?case by simp
next
  case (Cons h hands)
  show ?case
  proof (cases "processHandLandmarks h i s")
    case (Inl e)
    then show ?thesis by simp
  next
    case (Inr r)
    then obtain g s1 where r: "processHandLandmarks h i s = Inr (g, s1)"
      by (cases r) simp
    then obtain d c where s1: "s1 = slotAfter d c i s"
      by (rule processHandLandmarks_cases)
    from Cons.prems have keep: "slotView s1 0 = slotView s 0" "slotPosition s1 0 = slotPosition s 0"
      "singleView s1 = singleView s" "smoothedPositionRef s1 = smoothedPositionRef s"
      "gesture s1 = gesture s"
      by (simp_all add: s1 slotView_def singleView_def)
    from Cons.IH [of "i + 1" "hg @ [g]" "hl @ [handednessAt mh i]" s1] keep Cons.prems
    show ?thesis
      by (auto simp: r split: sum.splits)
  qed
qed

lemma synced_gesture:
  assumes "synced s"
  shows "singleGesture d c s = slotGesture d c 0 s"
  using assms
  by (simp add: synced_def singleView_def slotView_def singleGesture_def slotGesture_def
      singleDebounce_def slotDebounce_def)

text \<open>
  From refs in which the single-hand refs and the refs of slot 0 agree, a frame whose
  first hand is complete emits as single-hand \<open>GestureState\<close> the very
  \<open>GestureState\<close> that the per-hand filter returns for slot 0, and the refs agree
  again after the frame. They agree in the initial state, so the two differ only after a
  frame without hands.
\<close>

lemma single_hand_agrees_step:
  assumes "synced s" and "multiHandLandmarks r = Some (h # hs)" and "length h = 21"
  shows "\<exists>d c. calculatePinchDistance h = Inr d \<and> calculateHandCenter h = Inr c \<and>
           processLandmarks h s = Inr (singleAfter d c s) \<and>
           processHandLandmarks h 0 (singleAfter d c s)
             = Inr (slotGesture d c 0 s, slotAfter d c 0 (singleAfter d c s)) \<and>
           gesture (snd (onResults True r s)) = slotGesture d c 0 s"
    and "synced (snd (onResults True r s))"
proof -
  from assms(3) have "INDEX_TIP < length h" by (simp add: INDEX_TIP_def)
  then obtain d c where d: "calculatePinchDistance h = Inr d" and c: "calculateHandCenter h = Inr c"
    using geometry_defined by blast
  define s1 where "s1 = singleAfter d c s"
  define s2 where "s2 = slotAfter d c 0 s1"
  have g: "slotGesture d c 0 s1 = slotGesture d c 0 s"
    by (simp add: s1_def slotGesture_def slotDebounce_def)
  have p1: "processLandmarks h s = Inr s1"
    unfolding s1_def by (rule processLandmarks_Inr [OF d c])
  have p2: "processHandLandmarks h 0 s1 = Inr (slotGesture d c 0 s, s2)"
    unfolding s2_def g [symmetric] by (rule processHandLandmarks_Inr [OF d c])
  obtain res s3 where hl: "handLoop hs (multiHandedness r) (Suc 0)
      [slotGesture d c 0 s] [handednessAt (multiHandedness r) 0] s2 = (res, s3)"
    by (cases "handLoop hs (multiHandedness r) (Suc 0)
      [slotGesture d c 0 s] [handednessAt (multiHandedness r) 0] s2")
  from handLoop_keeps_slot_0 [of "Suc 0" hs "multiHandedness r" "[slotGesture d c 0 s]"
      "[handednessAt (multiHandedness r) 0]" s2] hl
  have keep: "slotView s3 0 = slotView s2 0" "slotPosition s3 0 = slotPosition s2 0"
    "singleView s3 = singleView s2" "smoothedPositionRef s3 = smoothedPositionRef s2"
    "gesture s3 = gesture s2"
    by simp_all
  have s2: "gesture s2 = slotGesture d c 0 s" "synced s2"
    using assms(1) synced_gesture [OF assms(1), of d c]
    by (simp_all add: s2_def s1_def synced_def singleView_def slotView_def
        singleDebounce_def slotDebounce_def)
  have s3: "gesture s3 = slotGesture d c 0 s" "synced s3"
    using s2 keep by (simp_all add: synced_def)
  have out: "gesture (snd (onResults True r s)) = slotGesture d c 0 s \<and>
      synced (snd (onResults True r s))"
  proof (cases res)
    case (Inl e)
    with assms(2) p1 p2 hl s3 drawLandmarks_complete [OF assms(3)] show ?thesis
      by (simp add: onResults_def)
  next
    case (Inr p)
    then obtain hg' hl' where p: "res = Inr (hg', hl')" by (cases p) simp
    with assms(2) p1 p2 hl s3 drawLandmarks_complete [OF assms(3)] show ?thesis
      by (simp add: onResults_def synced_def singleView_aggregated slotView_aggregated)
  qed
  from out show "synced (snd (onResults True r s))" by simp
  from out d c p1 p2
  show "\<exists>d c. calculatePinchDistance h = Inr d \<and> calculateHandCenter h = Inr c \<and>
           processLandmarks h s = Inr (singleAfter d c s) \<and>
           processHandLandmarks h 0 (singleAfter d c s)
             = Inr (slotGesture d c 0 s, slotAfter d c 0 (singleAfter d c s)) \<and>
           gesture (snd (onResults True r s)) = slotGesture d c 0 s"
    by (auto simp: s1_def s2_def)
qed

lemma synced_initial: "synced initialState"
  by (simp add: synced_def singleView_def slotView_def)

lemma single_hand_agrees_until_reset:
  assumes "list_all firstHandComplete frames"
  shows "synced (runFrames True frames initialState)"
proof -
  have "synced (runFrames True frames s)" if "synced s" for s
    using assms that
  proof (induction frames arbitrary: s)
    case Nil
    then show ?case by simp
  next
    case (Cons r frames)
    from Cons.prems(1) obtain h hs where r: "multiHandLandmarks r = Some (h # hs)"
      and h: "length h = 21"
      by (auto simp: firstHandComplete_def split: option.splits list.splits)
    from single_hand_agrees_step(2) [OF Cons.prems(2) r h] Cons.prems(1) Cons.IH
    show ?case by simp
  qed
  then show ?thesis by (simp add: synced_initial)
qed

section \<open>The frame without hands\<close>

lemma lostHandFrames_run:
  "runFrames True lostHandFrames initialState =
     resetNoHands (runFrames True (closedHandFrames 5) initialState)"
  by (simp add: lostHandFrames_def runFrames_append)

text \<open>
  Claim C1, on the code. Five frames of a hand with closed fingers bring the smoothed
  pinch distance of both filters to 1/32 and make \<open>true\<close> the pending candidate, with
  counter 1. The frame without hands that follows emits the "no hand" \<open>GestureState\<close>
  and the empty \<open>TwoHandGestureState\<close> and empties the per-hand refs, but of the
  single-hand refs it resets \<open>wasGrabbingRef\<close> only: the pending candidate, the counter,
  the smoothed pinch distance and the smoothed position stay as they were.
\<close>

theorem no_hands_keeps_single_hand_refs:
  "gesture (runFrames True lostHandFrames initialState) = noHandGesture \<and>
   twoHandGesture (runFrames True lostHandFrames initialState) = noTwoHandGesture \<and>
   wasGrabbingRefsPerHand (runFrames True lostHandFrames initialState) = Map.empty \<and>
   stateChangeCountersPerHand (runFrames True lostHandFrames initialState) = Map.empty \<and>
   pendingStatesPerHand (runFrames True lostHandFrames initialState) = Map.empty \<and>
   smoothedPositionsPerHand (runFrames True lostHandFrames initialState) = Map.empty \<and>
   smoothedPinchesPerHand (runFrames True lostHandFrames initialState) = Map.empty \<and>
   wasGrabbingRef (runFrames True lostHandFrames initialState) = False \<and>
   pendingStateRef (runFrames True lostHandFrames initialState) = Some True \<and>
   stateChangeCounterRef (runFrames True lostHandFrames initialState) = 1 \<and>
   smoothedPinchRef (runFrames True lostHandFrames initialState) = 1 / 32 \<and>
   smoothedPositionRef (runFrames True lostHandFrames initialState)
     = Some \<lparr>x3 = 0, y3 = 0, z3 = 0\<rparr>"
proof -
  from after_closedHandFrames_5(1)
  have "pendingStateRef (runFrames True (closedHandFrames 5) initialState) = Some True"
    "stateChangeCounterRef (runFrames True (closedHandFrames 5) initialState) = 1"
    "smoothedPinchRef (runFrames True (closedHandFrames 5) initialState) = 1 / 32"
    by (simp_all add: singleView_def)
  then show ?thesis
    by (simp add: lostHandFrames_run after_closedHandFrames_5(3))
qed

text \<open>
  Claim C6, on the code. When the hand comes back after the frame without hands, the
  single-hand filter continues from the refs that frame left: its smoothed pinch
  distance goes from 1/32 to 1/64 and the pending candidate is committed at once, so it
  emits a grabbing hand with pinch distance 1/64. The per-hand filter of slot 0 starts
  from initial values and returns, for the same frame, a hand that is not grabbing, with
  pinch distance 1/2; this is the left hand of the \<open>TwoHandGestureState\<close>.
\<close>

theorem single_hand_differs_from_slot_0:
  "gesture (runFrames True regainedHandFrames initialState) =
     \<lparr>isGrabbing = True, handPosition = Some \<lparr>x3 = 0, y3 = 0, z3 = 0\<rparr>,
      pinchDistance = 1 / 64, confidence = 1\<rparr> \<and>
   leftHand (twoHandGesture (runFrames True regainedHandFrames initialState)) =
     Some \<lparr>isGrabbing = False, handPosition = Some \<lparr>x3 = 0, y3 = 0, z3 = 0\<rparr>,
           pinchDistance = 1 / 2, confidence = 1\<rparr>"
proof -
  define s where "s = runFrames True lostHandFrames initialState"
  have run: "runFrames True regainedHandFrames initialState =
      snd (onResults True (oneHandFrame (pinchHand 0)) s)"
    by (simp add: regainedHandFrames_def runFrames_append s_def)
  have single: "singleView s = (False, Some True, 1, 1 / 32)"
    by (simp add: s_def lostHandFrames_run singleView_reset after_closedHandFrames_5(1))
  have slot: "slotView s 0 = (False, None, 0, 1)"
    by (simp add: s_def lostHandFrames_run slotView_reset)
  have pos: "smoothedPositionRef s = Some \<lparr>x3 = 0, y3 = 0, z3 = 0\<rparr>"
    "slotPosition s 0 = None"
    by (simp_all add: s_def lostHandFrames_run after_closedHandFrames_5(3))
  show ?thesis
    unfolding run pinchHand_frame single slot pos
    by (simp add: view_evals smoothPosition_origin)
qed

section \<open>Hands with missing landmarks\<close>

lemma shortHand_geometry:
  "calculatePinchDistance shortHand = Inr 0"
  "calculateHandCenter shortHand = Inr \<lparr>x3 = 1 / 2, y3 = 1 / 2, z3 = 0\<rparr>"
  by (simp_all add: shortHand_def calculatePinchDistance_def calculateHandCenter_def
      landmarkAt_def pinchHand_def handWith_def lm_def THUMB_TIP_def INDEX_TIP_def nth_append)

lemma length_shortHand: "length shortHand = 9"
  by (simp add: shortHand_def pinchHand_def)

lemma slotRefs_singleAfter: "slotRefs (singleAfter d c s) = slotRefs s"
  by (rule ext) (simp add: slotRefs_def singleAfter_def)

lemma slotRefs_slotAfter_other:
  assumes "j \<noteq> i"
  shows "slotRefs (slotAfter d c i s) j = slotRefs s j"
  using assms by (simp add: slotRefs_def slotAfter_def)

text \<open>A first hand without index tip: \<open>processLandmarks\<close> throws, nothing is written.\<close>

lemma first_hand_without_tips:
  assumes "multiHandLandmarks r = Some (h # hs)" and "length h \<le> INDEX_TIP"
  shows "onResults True r s = (Some TypeError, s)"
proof -
  from assms(2) have "\<not> INDEX_TIP < length h" by simp
  from processLandmarks_Inl [OF this] assms(1) show ?thesis
    by (simp add: onResults_def)
qed

text \<open>
  A first hand with the tips but fewer than 21 landmarks: \<open>processLandmarks\<close> runs,
  then \<open>drawLandmarks\<close> throws.
\<close>

lemma first_hand_short:
  assumes "multiHandLandmarks r = Some (h # hs)" and "INDEX_TIP < length h" and "length h < 21"
  shows "case processLandmarks h s of
           Inl e \<Rightarrow> False
         | Inr s1 \<Rightarrow>
             onResults True r s = (Some TypeError, s1) \<and> slotRefs s1 = slotRefs s \<and>
             twoHandGesture s1 = twoHandGesture s"
proof -
  from assms(2) obtain d c where "calculatePinchDistance h = Inr d" "calculateHandCenter h = Inr c"
    using geometry_defined by blast
  then have "processLandmarks h s = Inr (singleAfter d c s)"
    by (rule processLandmarks_Inr)
  with assms(1) drawLandmarks_short [OF assms(3)] show ?thesis
    by (simp add: onResults_def slotRefs_singleAfter)
qed

text \<open>A later hand in the loop over the hands.\<close>

lemma later_hand_without_tips:
  assumes "length h \<le> INDEX_TIP"
  shows "handLoop (h # hs) mh i hg hl s = (Inl TypeError, s)"
proof -
  from assms have "\<not> INDEX_TIP < length h" by simp
  then have "processHandLandmarks h i s = Inl TypeError"
    by (simp add: processHandLandmarks_def geometry_undefined)
  then show ?thesis by simp
qed

lemma later_hand_short:
  assumes "0 < i" and "INDEX_TIP < length h" and "length h < 21"
  shows "case processHandLandmarks h i s of
           Inl e \<Rightarrow> False
         | Inr (g, s1) \<Rightarrow>
             handLoop (h # hs) mh i hg hl s = (Inl TypeError, s1) \<and>
             slotPinch s1 i = pinchDistance g \<and> slotPosition s1 i = handPosition g \<and>
             smoothedPinchesPerHand s1 i = Some (pinchDistance g)"
proof -
  from assms(2) obtain d c where "calculatePinchDistance h = Inr d" "calculateHandCenter h = Inr c"
    using geometry_defined by blast
  then have "processHandLandmarks h i s = Inr (slotGesture d c i s, slotAfter d c i s)"
    by (rule processHandLandmarks_Inr)
  moreover have "smoothedPinchesPerHand (slotAfter d c i s) i
      = Some (pinchDistance (slotGesture d c i s))"
    by (simp add: slotAfter_def)
  ultimately show ?thesis
    using assms(1) drawLandmarks_short [OF assms(3)] by simp
qed

text \<open>A frame whose first hand is complete and whose second hand is not.\<close>

lemma second_hand_short:
  assumes "multiHandLandmarks r = Some (h0 # h # hs)" and "length h0 = 21" and "length h < 21"
  shows "fst (onResults True r s) = Some TypeError"
    and "twoHandGesture (snd (onResults True r s)) = twoHandGesture s"
    and "length h \<le> INDEX_TIP \<Longrightarrow> slotRefs (snd (onResults True r s)) 1 = slotRefs s 1"
    and "INDEX_TIP < length h \<Longrightarrow>
           (case calculatePinchDistance h of
              Inl e \<Rightarrow> False
            | Inr d \<Rightarrow>
                slotPinch (snd (onResults True r s)) 1 = smoothPinch (slotPinch s 1) d \<and>
                smoothedPinchesPerHand (snd (onResults True r s)) 1
                  = Some (smoothPinch (slotPinch s 1) d))"
proof -
  from assms(2) have "INDEX_TIP < length h0" by (simp add: INDEX_TIP_def)
  then obtain d0 c0 where g0: "calculatePinchDistance h0 = Inr d0" "calculateHandCenter h0 = Inr c0"
    using geometry_defined by blast
  define s1 where "s1 = singleAfter d0 c0 s"
  define s2 where "s2 = slotAfter d0 c0 0 s1"
  have p1: "processLandmarks h0 s = Inr s1"
    unfolding s1_def by (rule processLandmarks_Inr [OF g0])
  have p2: "processHandLandmarks h0 0 s1 = Inr (slotGesture d0 c0 0 s1, s2)"
    unfolding s2_def by (rule processHandLandmarks_Inr [OF g0])
  have run: "onResults True r s =
     (case handLoop (h # hs) (multiHandedness r) (Suc 0) [slotGesture d0 c0 0 s1]
             [handednessAt (multiHandedness r) 0] s2 of
        (Inl e, s3) \<Rightarrow> (Some e, s3)
      | (Inr (handGestures, handednessLabels), s3) \<Rightarrow>
          (None,
           snd (processTwoHandGesture (elemAt handGestures 0) (elemAt handGestures 1)
                  (case elemAt handednessLabels 0 of None \<Rightarrow> None | Some l \<Rightarrow> l)
                  (case elemAt handednessLabels 1 of None \<Rightarrow> None | Some l \<Rightarrow> l) s3)))"
  proof -
    have "handLoop (h0 # h # hs) (multiHandedness r) 0 [] [] s1 =
        handLoop (h # hs) (multiHandedness r) (Suc 0) [slotGesture d0 c0 0 s1]
          [handednessAt (multiHandedness r) 0] s2"
      using p2 by simp
    with assms(1) p1 drawLandmarks_complete [OF assms(2)] show ?thesis
      by (simp add: onResults_def del: handLoop.simps)
  qed
  have s2: "twoHandGesture s2 = twoHandGesture s" "slotRefs s2 1 = slotRefs s 1"
    "slotPinch s2 1 = slotPinch s 1"
    by (simp_all add: s2_def s1_def slotRefs_slotAfter_other slotRefs_singleAfter)
  show "fst (onResults True r s) = Some TypeError"
    and "twoHandGesture (snd (onResults True r s)) = twoHandGesture s"
    and "length h \<le> INDEX_TIP \<Longrightarrow> slotRefs (snd (onResults True r s)) 1 = slotRefs s 1"
    and "INDEX_TIP < length h \<Longrightarrow>
           (case calculatePinchDistance h of
              Inl e \<Rightarrow> False
            | Inr d \<Rightarrow>
                slotPinch (snd (onResults True r s)) 1 = smoothPinch (slotPinch s 1) d \<and>
                smoothedPinchesPerHand (snd (onResults True r s)) 1
                  = Some (smoothPinch (slotPinch s 1) d))"
  proof -
    show "fst (onResults True r s) = Some TypeError"
      and "twoHandGesture (snd (onResults True r s)) = twoHandGesture s"
    proof -
      have "fst (onResults True r s) = Some TypeError \<and>
            twoHandGesture (snd (onResults True r s)) = twoHandGesture s"
      proof (cases "length h \<le> INDEX_TIP")
        case True
        from later_hand_without_tips [OF True] s2 show ?thesis
          by (simp add: run)
      next
        case False
        then have t: "INDEX_TIP < length h" by simp
        then obtain d c where g: "calculatePinchDistance h = Inr d" "calculateHandCenter h = Inr c"
          using geometry_defined by blast
        from later_hand_short [where i = "Suc 0" and s = s2 and hs = hs
            and mh = "multiHandedness r" and hg = "[slotGesture d0 c0 0 s1]"
            and hl = "[handednessAt (multiHandedness r) 0]", OF _ t assms(3)] s2
        show ?thesis
          by (simp add: run processHandLandmarks_Inr [OF g])
      qed
      then show "fst (onResults True r s) = Some TypeError"
        and "twoHandGesture (snd (onResults True r s)) = twoHandGesture s"
        by simp_all
    qed
    show "slotRefs (snd (onResults True r s)) 1 = slotRefs s 1" if "length h \<le> INDEX_TIP"
      using later_hand_without_tips [OF that] s2 by (simp add: run)
    show "case calculatePinchDistance h of
              Inl e \<Rightarrow> False
            | Inr d \<Rightarrow>
                slotPinch (snd (onResults True r s)) 1 = smoothPinch (slotPinch s 1) d \<and>
                smoothedPinchesPerHand (snd (onResults True r s)) 1
                  = Some (smoothPinch (slotPinch s 1) d)"
      if t: "INDEX_TIP < length h"
    proof -
      from t obtain d c where g: "calculatePinchDistance h = Inr d" "calculateHandCenter h = Inr c"
        using geometry_defined by blast
      from later_hand_short [where i = "Suc 0" and s = s2 and hs = hs
            and mh = "multiHandedness r" and hg = "[slotGesture d0 c0 0 s1]"
            and hl = "[handednessAt (multiHandedness r) 0]", OF _ t assms(3)] s2
      show ?thesis
        by (simp add: run g processHandLandmarks_Inr [OF g])
    qed
  qed
qed

lemma length_pinchHand: "length (pinchHand d) = 21"
  by (simp add: pinchHand_def)

lemma twoHandFrame_hands: "multiHandLandmarks (twoHandFrame h0 h1) = Some (h0 # h1 # [])"
  by (simp add: twoHandFrame_def)

text \<open>
  Claim C2, as the code has it. A frame with a complete first hand and a second hand
  without landmarks: the per-hand filter throws on the second hand, and so does
  \<open>onResults\<close>. The same frame with a second hand of nine landmarks: \<open>onResults\<close>
  throws as well (in \<open>drawLandmarks\<close>), after the per-hand filter has changed the
  smoothed pinch distance of slot 1 from 1 to 1/2.
\<close>

theorem short_hand_counterexample:
  "fst (onResults True (twoHandFrame (pinchHand 0) []) initialState) = Some TypeError \<and>
   fst (onResults True (twoHandFrame (pinchHand 0) shortHand) initialState) = Some TypeError \<and>
   slotPinch initialState 1 = 1 \<and>
   slotPinch (snd (onResults True (twoHandFrame (pinchHand 0) shortHand) initialState)) 1 = 1 / 2"
proof -
  have a: "fst (onResults True (twoHandFrame (pinchHand 0) []) initialState) = Some TypeError"
    by (rule second_hand_short(1) [OF twoHandFrame_hands length_pinchHand]) simp
  have b: "fst (onResults True (twoHandFrame (pinchHand 0) shortHand) initialState)
      = Some TypeError"
    by (rule second_hand_short(1) [OF twoHandFrame_hands length_pinchHand])
      (simp add: length_shortHand)
  have "INDEX_TIP < length shortHand" "length shortHand < 21"
    by (simp_all add: length_shortHand INDEX_TIP_def)
  from second_hand_short(4) [where s = initialState,
      OF twoHandFrame_hands length_pinchHand this(2,1)]
  have c: "slotPinch (snd (onResults True (twoHandFrame (pinchHand 0) shortHand) initialState)) 1
      = 1 / 2"
    by (simp add: shortHand_geometry smoothPinch_def PINCH_SMOOTHING_def)
  from a b c show ?thesis by simp
qed

text \<open>
  Claim C2, amended. A frame with a hand of fewer than 21 landmarks ends in a
  \<open>TypeError\<close> thrown by \<open>onResults\<close>, and no \<open>TwoHandGestureState\<close> is emitted for
  it.
  \<^item> A first hand without index tip (fewer than nine landmarks): nothing is written.
  \<^item> A first hand of 9 to 20 landmarks: the refs are those that the single-hand filter
    \<open>processLandmarks\<close> leaves; the per-hand filter is not reached and no per-hand ref
    is written.
  \<^item> A hand without index tip at a later index of the loop: the per-hand filter throws
    before it writes, the loop ends with the refs as they are.
  \<^item> A hand of 9 to 20 landmarks at a later index: the per-hand filter returns and
    leaves its smoothed values in the slot as for a complete hand, then
    \<open>drawLandmarks\<close> throws and the loop ends with these refs.
  \<^item> For a frame with a complete first hand and a second hand of fewer than 21
    landmarks this means: \<open>onResults\<close> throws, the \<open>TwoHandGestureState\<close> stays as it
    was, the five refs of slot 1 are unchanged when the second hand has no index tip,
    and the smoothed pinch distance of slot 1 is updated by the smoothing formula when
    it has one.
\<close>

theorem short_hand_aborts_frame:
  "(multiHandLandmarks r = Some (h # hs) \<and> length h \<le> INDEX_TIP \<longrightarrow>
      onResults True r s = (Some TypeError, s)) \<and>
   (multiHandLandmarks r = Some (h # hs) \<and> INDEX_TIP < length h \<and> length h < 21 \<longrightarrow>
      (case processLandmarks h s of
         Inl e \<Rightarrow> False
       | Inr s1 \<Rightarrow>
           onResults True r s = (Some TypeError, s1) \<and> slotRefs s1 = slotRefs s \<and>
           twoHandGesture s1 = twoHandGesture s)) \<and>
   (0 < i \<and> length h \<le> INDEX_TIP \<longrightarrow>
      handLoop (h # hs) mh i hg hl s = (Inl TypeError, s)) \<and>
   (0 < i \<and> INDEX_TIP < length h \<and> length h < 21 \<longrightarrow>
      (case processHandLandmarks h i s of
         Inl e \<Rightarrow> False
       | Inr (g, s1) \<Rightarrow>
           handLoop (h # hs) mh i hg hl s = (Inl TypeError, s1) \<and>
           slotPinch s1 i = pinchDistance g \<and> slotPosition s1 i = handPosition g \<and>
           smoothedPinchesPerHand s1 i = Some (pinchDistance g))) \<and>
   (multiHandLandmarks r = Some (h0 # h # hs) \<and> length h0 = 21 \<and> length h < 21 \<longrightarrow>
      fst (onResults True r s) = Some TypeError \<and>
      twoHandGesture (snd (onResults True r s)) = twoHandGesture s \<and>
      (length h \<le> INDEX_TIP \<longrightarrow> slotRefs (snd (onResults True r s)) 1 = slotRefs s 1) \<and>
      (INDEX_TIP < length h \<longrightarrow>
         (case calculatePinchDistance h of
            Inl e \<Rightarrow> False
          | Inr d \<Rightarrow>
              slotPinch (snd (onResults True r s)) 1 = smoothPinch (slotPinch s 1) d \<and>
              smoothedPinchesPerHand (snd (onResults True r s)) 1
                = Some (smoothPinch (slotPinch s 1) d))))"
  using first_hand_without_tips [where r = r and h = h and hs = hs and s = s]
    first_hand_short [where r = r and h = h and hs = hs and s = s]
    later_hand_without_tips [where h = h and hs = hs and mh = mh and i = i and hg = hg
      and hl = hl and s = s]
    later_hand_short [where i = i and h = h and s = s and hs = hs and mh = mh and hg = hg
      and hl = hl]
    second_hand_short [where r = r and ?h0.0 = h0 and h = h and hs = hs and s = s]
  by blast

text \<open>
  The theorem at frames from the initial state: a first hand without landmarks, a
  first hand of nine landmarks, a hand without landmarks at index 1 of the loop, and a
  complete hand followed by a hand without landmarks or by a hand of nine landmarks.
\<close>

theorem short_hand_aborts_frame_witness:
  "onResults True (oneHandFrame []) initialState = (Some TypeError, initialState) \<and>
   fst (onResults True (oneHandFrame shortHand) initialState) = Some TypeError \<and>
   slotRefs (snd (onResults True (oneHandFrame shortHand) initialState)) = slotRefs initialState \<and>
   smoothedPinchRef (snd (onResults True (oneHandFrame shortHand) initialState)) = 1 / 2 \<and>
   handLoop [[]] None 1 [] [] initialState = (Inl TypeError, initialState) \<and>
   fst (onResults True (twoHandFrame (pinchHand 0) []) initialState) = Some TypeError \<and>
   slotRefs (snd (onResults True (twoHandFrame (pinchHand 0) []) initialState)) 1
     = slotRefs initialState 1 \<and>
   fst (onResults True (twoHandFrame (pinchHand 0) shortHand) initialState) = Some TypeError \<and>
   smoothedPinchesPerHand
     (snd (onResults True (twoHandFrame (pinchHand 0) shortHand) initialState)) 1 = Some (1 / 2)"
proof -
  have short: "INDEX_TIP < length shortHand" "length shortHand < 21"
    by (simp_all add: length_shortHand INDEX_TIP_def)
  have empty: "length ([] :: HandLandmark list) \<le> INDEX_TIP" "length ([] :: HandLandmark list) < 21"
    by simp_all
  have one: "multiHandLandmarks (oneHandFrame h) = Some (h # [])" for h
    by (simp add: oneHandFrame_def)
  from short_hand_aborts_frame [where r = "oneHandFrame []" and h = "[]" and hs = "[]" and s = initialState] one empty
  have 1: "onResults True (oneHandFrame []) initialState = (Some TypeError, initialState)"
    by blast
  from short_hand_aborts_frame [where r = "oneHandFrame shortHand" and h = shortHand and hs = "[]"
      and s = initialState] one short
  have "case processLandmarks shortHand initialState of
         Inl e \<Rightarrow> False
       | Inr s1 \<Rightarrow>
           onResults True (oneHandFrame shortHand) initialState = (Some TypeError, s1) \<and>
           slotRefs s1 = slotRefs initialState \<and>
           twoHandGesture s1 = twoHandGesture initialState"
    by blast
  then have 2: "fst (onResults True (oneHandFrame shortHand) initialState) = Some TypeError \<and>
      slotRefs (snd (onResults True (oneHandFrame shortHand) initialState))
        = slotRefs initialState \<and>
      smoothedPinchRef (snd (onResults True (oneHandFrame shortHand) initialState)) = 1 / 2"
    by (simp add: processLandmarks_Inr [OF shortHand_geometry] smoothPinch_def
        PINCH_SMOOTHING_def)
  from short_hand_aborts_frame [where h = "[]" and hs = "[]" and i = 1 and mh = None and hg = "[]" and hl = "[]"
      and s = initialState] empty
  have 3: "handLoop [[]] None 1 [] [] initialState = (Inl TypeError, initialState)"
    by simp
  from short_hand_aborts_frame [where r = "twoHandFrame (pinchHand 0) []" and ?h0.0 = "pinchHand 0" and h = "[]"
      and hs = "[]" and s = initialState] twoHandFrame_hands length_pinchHand empty
  have 4: "fst (onResults True (twoHandFrame (pinchHand 0) []) initialState) = Some TypeError \<and>
      slotRefs (snd (onResults True (twoHandFrame (pinchHand 0) []) initialState)) 1
        = slotRefs initialState 1"
    by simp
  from short_hand_aborts_frame [where r = "twoHandFrame (pinchHand 0) shortHand" and ?h0.0 = "pinchHand 0"
      and h = shortHand and hs = "[]" and s = initialState]
    twoHandFrame_hands length_pinchHand short
  have 5: "fst (onResults True (twoHandFrame (pinchHand 0) shortHand) initialState)
        = Some TypeError \<and>
      smoothedPinchesPerHand
        (snd (onResults True (twoHandFrame (pinchHand 0) shortHand) initialState)) 1
        = Some (1 / 2)"
    by (simp add: shortHand_geometry smoothPinch_def PINCH_SMOOTHING_def)
  from 1 2 3 4 5 show ?thesis by blast
qed

end
